theory Spec2Isabelle
  imports Main "HOL-Library.Multiset" "HOL-Library.Char_ord" "HOL-Library.List_Lexorder"
begin

section \<open>Data model\<close>

text \<open>
  \<^verbatim>\<open>FileItem\<close> of \<^verbatim>\<open>FileSystemInterface.ts\<close>. Optional fields are options;
  \<^verbatim>\<open>modifiedDate\<close> is the number of milliseconds handed to \<^verbatim>\<open>new Date\<close>.
\<close>

record FileItem =
  name :: string
  path :: string
  isFile :: bool
  isDirectory :: bool
  size_bytes :: "nat option"
  modifiedDate :: "nat option"

datatype FileSystemSource = Local | Remote

text \<open>
  What \<^verbatim>\<open>FileSystem.getInfoAsync\<close> resolves to: \<^verbatim>\<open>isDirectory\<close>, \<^verbatim>\<open>size\<close> and
  \<^verbatim>\<open>modificationTime\<close> (seconds) are read by the local backend, \<^verbatim>\<open>exists\<close> by
  \<^verbatim>\<open>changeDirectory\<close>.
\<close>

record FileInfo =
  info_exists :: bool
  info_isDirectory :: bool
  info_size :: "nat option"
  info_modificationTime :: "nat option"

text \<open>
  The fields of \<^verbatim>\<open>SSHCredentials\<close> that the services read. A missing optional field
  is \<open>None\<close>; the connection form also sends empty strings, which JavaScript treats
  as absent in every test of the source (\<^verbatim>\<open>!credentials.password\<close>, \<^verbatim>\<open>a || b\<close>).
\<close>

record SSHCredentials =
  host :: string
  port :: string
  username :: string
  password :: "string option"
  privateKey :: "string option"
  initialPath :: "string option"

text \<open>
  Every \<^verbatim>\<open>new Error(...)\<close> of the modelled services, one constructor per message.
  The comment gives the message and the error kind of the specification it stands for.
\<close>

datatype opkind = ListDir | ReadFile | WriteFile | ExecuteCommand

datatype error =
    FailedToList string              \<comment> \<open>\<^verbatim>\<open>Failed to list directory: p\<close> (IOError)\<close>
  | DirectoryDoesNotExist string     \<comment> \<open>\<^verbatim>\<open>Directory does not exist: p\<close> (NotFound)\<close>
  | PathIsNotADirectory string       \<comment> \<open>\<^verbatim>\<open>Path is not a directory: p\<close> (NotADirectory)\<close>
  | StorageFailure                   \<comment> \<open>a rejected storage primitive, rethrown as it is\<close>
  | FailedToRead string              \<comment> \<open>\<^verbatim>\<open>Failed to read file: p\<close> (IOError)\<close>
  | FailedToWrite string             \<comment> \<open>\<^verbatim>\<open>Failed to write file: p\<close> (IOError)\<close>
  | SSHNotConnected                  \<comment> \<open>\<^verbatim>\<open>SSH not connected\<close>, thrown by the transport\<close>
  | NotConnectedToRemote             \<comment> \<open>\<^verbatim>\<open>Not connected to remote server\<close> (NotConnected)\<close>
  | Timeout opkind                   \<comment> \<open>\<^verbatim>\<open>List directory timeout\<close> and its siblings (Timeout)\<close>
  | BrokerError string               \<comment> \<open>the text of an error reply\<close>
  | FailedToListRemote string        \<comment> \<open>\<^verbatim>\<open>Failed to list remote directory: p\<close>\<close>
  | FailedToReadRemote string        \<comment> \<open>\<^verbatim>\<open>Failed to read remote file: p\<close>\<close>
  | FailedToWriteRemote string       \<comment> \<open>\<^verbatim>\<open>Failed to write remote file: p\<close>\<close>
  | SocketNotInitialized             \<comment> \<open>\<^verbatim>\<open>Socket not initialized\<close>\<close>
  | SocketNotConnected               \<comment> \<open>\<^verbatim>\<open>Socket not connected\<close>\<close>
  | SocketConnectionTimeout          \<comment> \<open>\<^verbatim>\<open>Socket connection timeout\<close>\<close>
  | SocketConnectionFailed string    \<comment> \<open>\<^verbatim>\<open>Socket connection failed: m\<close> (TransportError)\<close>
  | SSHConnectionTimeout             \<comment> \<open>\<^verbatim>\<open>SSH connection timeout\<close> (Timeout)\<close>
  | SSHConnectionFailed string       \<comment> \<open>\<^verbatim>\<open>SSH connection failed: m\<close> (AuthenticationFailed)\<close>
  | CannotSwitchNotConnected         \<comment> \<open>\<^verbatim>\<open>Cannot switch to remote file system: not connected\<close>
                                         (PreconditionFailed)\<close>
  | RemoteModeOnly                   \<comment> \<open>\<^verbatim>\<open>Command execution only available in remote mode\<close>
                                         (UnsupportedOperation)\<close>
  | NoPasswordOrKey                  \<comment> \<open>\<^verbatim>\<open>No password or private key provided\<close>\<close>
  | InvalidPassword                  \<comment> \<open>\<^verbatim>\<open>Authentication failed: Invalid password\<close>\<close>

text \<open>JavaScript truthiness of an optional string: \<^verbatim>\<open>undefined\<close> and \<^verbatim>\<open>''\<close> are falsy.\<close>

fun truthy :: "string option \<Rightarrow> bool" where
  "truthy None = False"
| "truthy (Some s) = (s \<noteq> [])"

text \<open>\<^verbatim>\<open>a || b\<close> for an optional string \<open>a\<close> and a string \<open>b\<close>.\<close>

definition or_else :: "string option \<Rightarrow> string \<Rightarrow> string" where
  "or_else a b = (case a of None \<Rightarrow> b | Some s \<Rightarrow> if s = [] then b else s)"

section \<open>The platform: storage primitives and string collation\<close>

text \<open>
  The local backend calls four primitives of \<^verbatim>\<open>expo-file-system\<close> and
  \<^verbatim>\<open>String.prototype.localeCompare\<close>. None of them is code of the repository, so they
  are parameters: functions on an abstract device storage \<open>'fs\<close>. \<open>None\<close> is a rejected
  promise. A write returns the storage it leaves behind.
\<close>

record 'fs platform =
  documentDirectory :: "string option"
  readDirectoryAsync :: "'fs \<Rightarrow> string \<Rightarrow> string list option"
  getInfoAsync :: "'fs \<Rightarrow> string \<Rightarrow> FileInfo option"
  readAsStringAsync :: "'fs \<Rightarrow> string \<Rightarrow> string option"
  writeAsStringAsync :: "'fs \<Rightarrow> string \<Rightarrow> string \<Rightarrow> 'fs option"
  localeCompare :: "string \<Rightarrow> string \<Rightarrow> int"

section \<open>\<^verbatim>\<open>Array.prototype.sort\<close>\<close>

text \<open>
  \<^verbatim>\<open>sort\<close> is stable, and \<open>a\<close> stays before \<open>b\<close> when the comparator returns a
  number \<open>\<le> 0\<close>. For a consistent comparator the result is the one of a stable
  insertion sort, which is the model here; for an inconsistent comparator ECMAScript
  leaves the order to the engine.
\<close>

fun insert_by :: "('a \<Rightarrow> 'a \<Rightarrow> int) \<Rightarrow> 'a \<Rightarrow> 'a list \<Rightarrow> 'a list" where
  "insert_by cmp x [] = [x]"
| "insert_by cmp x (y # ys) =
     (if cmp x y \<le> 0 then x # y # ys else y # insert_by cmp x ys)"

definition sort_by :: "('a \<Rightarrow> 'a \<Rightarrow> int) \<Rightarrow> 'a list \<Rightarrow> 'a list" where
  "sort_by cmp xs = foldr (insert_by cmp) xs []"

section \<open>Local backend (\<^verbatim>\<open>LocalFileSystem.ts\<close>)\<close>

text \<open>
  The object's only field is \<^verbatim>\<open>currentPath\<close>; the device storage it acts on is kept
  beside it, so that a write is a state change of the model.
\<close>

record 'fs LocalFileSystem =
  currentPath_local :: string
  disk :: "'fs"

definition LocalFileSystem_new :: "'fs platform \<Rightarrow> 'fs \<Rightarrow> 'fs LocalFileSystem" where
  "LocalFileSystem_new P d =
     \<lparr>currentPath_local = or_else (documentDirectory P) ''/'', disk = d\<rparr>"

definition endsWithSlash :: "string \<Rightarrow> bool" where
  "endsWithSlash s = (s \<noteq> [] \<and> last s = CHR ''/'')"

definition fullPath :: "string \<Rightarrow> string \<Rightarrow> string" where
  "fullPath targetPath fileName =
     targetPath @ (if endsWithSlash targetPath then [] else ''/'') @ fileName"

text \<open>The comparator passed to \<^verbatim>\<open>sort\<close>: directories first, then \<^verbatim>\<open>localeCompare\<close>.\<close>

definition compareItems :: "'fs platform \<Rightarrow> FileItem \<Rightarrow> FileItem \<Rightarrow> int" where
  "compareItems P a b =
     (if isDirectory a \<noteq> isDirectory b then (if isDirectory a then - 1 else 1)
      else localeCompare P (name a) (name b))"

text \<open>The body of the \<^verbatim>\<open>for\<close> loop: one pushed item per name, also when the stat fails.\<close>

definition statEntry :: "'fs platform \<Rightarrow> 'fs \<Rightarrow> string \<Rightarrow> string \<Rightarrow> FileItem" where
  "statEntry P d targetPath fileName =
     (case getInfoAsync P d (fullPath targetPath fileName) of
        Some info \<Rightarrow>
          \<lparr>name = fileName, path = fullPath targetPath fileName,
           isFile = (\<not> info_isDirectory info),
           isDirectory = (info_isDirectory info \<or> False),
           size_bytes = info_size info,
           modifiedDate =
             (case info_modificationTime info of
                None \<Rightarrow> None
              | Some t \<Rightarrow> if t = 0 then None else Some (t * 1000))\<rparr>
      | None \<Rightarrow>
          \<lparr>name = fileName, path = fullPath targetPath fileName,
           isFile = True, isDirectory = False,
           size_bytes = None, modifiedDate = None\<rparr>)"

definition listDirectory_local ::
  "'fs platform \<Rightarrow> string option \<Rightarrow> 'fs LocalFileSystem \<Rightarrow> error + FileItem list" where
  "listDirectory_local P p s =
     (let targetPath = or_else p (currentPath_local s) in
      case readDirectoryAsync P (disk s) targetPath of
        None \<Rightarrow> Inl (FailedToList targetPath)
      | Some files \<Rightarrow>
          Inr (sort_by (compareItems P) (map (statEntry P (disk s) targetPath) files)))"

text \<open>
  \<^verbatim>\<open>changeDirectory\<close> stats the path; it lists nothing. A rejected stat is rethrown by
  the \<^verbatim>\<open>catch\<close> block as it is.
\<close>

definition changeDirectory_local ::
  "'fs platform \<Rightarrow> string \<Rightarrow> 'fs LocalFileSystem \<Rightarrow> (error + unit) \<times> 'fs LocalFileSystem" where
  "changeDirectory_local P p s =
     (case getInfoAsync P (disk s) p of
        None \<Rightarrow> (Inl StorageFailure, s)
      | Some info \<Rightarrow>
          if \<not> info_exists info then (Inl (DirectoryDoesNotExist p), s)
          else if \<not> info_isDirectory info then (Inl (PathIsNotADirectory p), s)
          else (Inr (), s\<lparr>currentPath_local := p\<rparr>))"


definition writeFile_local ::
  "'fs platform \<Rightarrow> string \<Rightarrow> string \<Rightarrow> 'fs LocalFileSystem
     \<Rightarrow> (error + unit) \<times> 'fs LocalFileSystem" where
  "writeFile_local P filePath content s =
     (case writeAsStringAsync P (disk s) filePath content of
        None \<Rightarrow> (Inl (FailedToWrite filePath), s)
      | Some d \<Rightarrow> (Inr (), s\<lparr>disk := d\<rparr>))"



section \<open>Remote transport (\<^verbatim>\<open>WebSocketSSHService\<close>)\<close>

text \<open>
  The Socket.IO object as far as the service reads it: \<^verbatim>\<open>socket.connected\<close>.
  \<^verbatim>\<open>this.socket = null\<close> is \<open>None\<close>.
\<close>

datatype Socket = Socket (socket_connected: bool)

record ConnectionInfo =
  info_host :: string
  info_username :: string
  info_currentPath :: string

record WebSocketSSHService =
  socket :: "Socket option"
  connected :: bool
  currentPath_ssh :: string
  connectionInfo :: "ConnectionInfo option"
  streamingCallback :: "nat option"  \<comment> \<open>callbacks are told apart by a number\<close>

definition WebSocketSSHService_new :: WebSocketSSHService where
  "WebSocketSSHService_new =
     \<lparr>socket = None, connected = False, currentPath_ssh = ''/'',
      connectionInfo = None, streamingCallback = None\<rparr>"

text \<open>
  What the broker does with one request, as the awaiting call sees it: the success
  event with its payload, the error event with its text, or neither before the timer
  of the call fires. The broker is not code of the repository; every operation takes
  it as a parameter, and successive calls may meet different brokers.
\<close>

datatype 'a reply = Success 'a | Failure string | NoReply

record broker =
  handshake :: "unit reply"
    \<comment> \<open>\<^verbatim>\<open>connect\<close>, \<^verbatim>\<open>connect_error\<close> or nothing within 10 s\<close>
  on_connect :: "SSHCredentials \<Rightarrow> unit reply"
    \<comment> \<open>\<^verbatim>\<open>ssh:connect:success\<close>, \<^verbatim>\<open>ssh:connect:error\<close> or nothing within 30 s\<close>
  on_listDir :: "string \<Rightarrow> FileItem list reply"
  on_readFile :: "string \<Rightarrow> string reply"
  on_writeFile :: "string \<Rightarrow> string \<Rightarrow> unit reply"
  on_executeCommand :: "string \<Rightarrow> string option reply"
    \<comment> \<open>the \<^verbatim>\<open>stdout\<close> field of the result, possibly missing\<close>
  on_disconnect :: bool
    \<comment> \<open>whether \<^verbatim>\<open>ssh:disconnect:success\<close> arrives within 5 s\<close>

definition cleanup :: "WebSocketSSHService \<Rightarrow> WebSocketSSHService" where
  "cleanup s = s\<lparr>socket := None, connected := False, currentPath_ssh := ''/'',
                 connectionInfo := None\<rparr>"

definition waitForSocketConnection :: "broker \<Rightarrow> WebSocketSSHService \<Rightarrow> error + unit" where
  "waitForSocketConnection B s =
     (case socket s of
        None \<Rightarrow> Inl SocketNotInitialized
      | Some sk \<Rightarrow>
          if socket_connected sk then Inr ()
          else (case handshake B of
                  NoReply \<Rightarrow> Inl SocketConnectionTimeout
                | Success _ \<Rightarrow> Inr ()
                | Failure m \<Rightarrow> Inl (SocketConnectionFailed m)))"

definition connectSSH ::
  "broker \<Rightarrow> SSHCredentials \<Rightarrow> WebSocketSSHService \<Rightarrow> error + bool" where
  "connectSSH B credentials s =
     (case socket s of
        None \<Rightarrow> Inl SocketNotConnected
      | Some _ \<Rightarrow>
          (case on_connect B credentials of
             NoReply \<Rightarrow> Inl SSHConnectionTimeout
           | Success _ \<Rightarrow> Inr True
           | Failure e \<Rightarrow> Inl (SSHConnectionFailed e)))"

text \<open>
  \<^verbatim>\<open>connect\<close>: a fresh socket (\<^verbatim>\<open>forceNew\<close>, not yet connected), the handshake,
  then the SSH request. No field of the credentials is checked. The \<^verbatim>\<open>catch\<close> block
  runs \<^verbatim>\<open>cleanup\<close> and rethrows.
\<close>

definition connect_ssh ::
  "broker \<Rightarrow> SSHCredentials \<Rightarrow> WebSocketSSHService
     \<Rightarrow> (error + bool) \<times> WebSocketSSHService" where
  "connect_ssh B credentials s =
     (let s1 = s\<lparr>socket := Some (Socket False)\<rparr> in
      case waitForSocketConnection B s1 of
        Inl e \<Rightarrow> (Inl e, cleanup s1)
      | Inr _ \<Rightarrow>
          (let s2 = s1\<lparr>socket := Some (Socket True)\<rparr> in
           case connectSSH B credentials s2 of
             Inl e \<Rightarrow> (Inl e, cleanup s2)
           | Inr sshConnected \<Rightarrow>
               if sshConnected then
                 (let p = or_else (initialPath credentials) (''/home/'' @ username credentials) in
                  (Inr True,
                   s2\<lparr>connected := True, currentPath_ssh := p,
                      connectionInfo :=
                        Some \<lparr>info_host = host credentials,
                              info_username = username credentials,
                              info_currentPath = p\<rparr>\<rparr>))
               else (Inr False, s2)))"

definition setStreamingCallback_ssh :: "nat \<Rightarrow> WebSocketSSHService \<Rightarrow> WebSocketSSHService" where
  "setStreamingCallback_ssh callback s = s\<lparr>streamingCallback := Some callback\<rparr>"

text \<open>The handlers of \<^verbatim>\<open>setupSocketHandlers\<close> that write a field.\<close>

definition on_socket_disconnect :: "WebSocketSSHService \<Rightarrow> WebSocketSSHService" where
  \<comment> \<open>the socket's own \<^verbatim>\<open>disconnect\<close> event: the channel is lost\<close>
  "on_socket_disconnect s =
     s\<lparr>connected := False, socket := map_option (\<lambda>_. Socket False) (socket s)\<rparr>"

definition on_ssh_disconnected :: "WebSocketSSHService \<Rightarrow> WebSocketSSHService" where
  "on_ssh_disconnected s = s\<lparr>connected := False\<rparr>"

definition listDirectory_ssh ::
  "broker \<Rightarrow> string option \<Rightarrow> WebSocketSSHService \<Rightarrow> error + FileItem list" where
  "listDirectory_ssh B p s =
     (if \<not> connected s \<or> socket s = None then Inl SSHNotConnected
      else (let targetPath = or_else p (currentPath_ssh s) in
            case on_listDir B targetPath of
              NoReply \<Rightarrow> Inl (Timeout ListDir)
            | Success files \<Rightarrow> Inr files
            | Failure e \<Rightarrow> Inl (BrokerError e)))"

definition readFile_ssh :: "broker \<Rightarrow> string \<Rightarrow> WebSocketSSHService \<Rightarrow> error + string" where
  "readFile_ssh B filePath s =
     (if \<not> connected s \<or> socket s = None then Inl SSHNotConnected
      else (case on_readFile B filePath of
              NoReply \<Rightarrow> Inl (Timeout ReadFile)
            | Success content \<Rightarrow> Inr content
            | Failure e \<Rightarrow> Inl (BrokerError e)))"

definition writeFile_ssh ::
  "broker \<Rightarrow> string \<Rightarrow> string \<Rightarrow> WebSocketSSHService \<Rightarrow> error + unit" where
  "writeFile_ssh B filePath content s =
     (if \<not> connected s \<or> socket s = None then Inl SSHNotConnected
      else (case on_writeFile B filePath content of
              NoReply \<Rightarrow> Inl (Timeout WriteFile)
            | Success _ \<Rightarrow> Inr ()
            | Failure e \<Rightarrow> Inl (BrokerError e)))"

definition executeCommand_ssh ::
  "broker \<Rightarrow> string \<Rightarrow> WebSocketSSHService \<Rightarrow> error + string" where
  "executeCommand_ssh B command s =
     (if \<not> connected s \<or> socket s = None then Inl SSHNotConnected
      else (case on_executeCommand B command of
              NoReply \<Rightarrow> Inl (Timeout ExecuteCommand)
            | Success out \<Rightarrow> Inr (or_else out [])
            | Failure e \<Rightarrow> Inl (BrokerError e)))"

text \<open>\<^verbatim>\<open>changeDirectory\<close>: the listing is awaited first; only then the fields are written.\<close>

definition changeDirectory_ssh ::
  "broker \<Rightarrow> string \<Rightarrow> WebSocketSSHService \<Rightarrow> (error + unit) \<times> WebSocketSSHService" where
  "changeDirectory_ssh B p s =
     (case listDirectory_ssh B (Some p) s of
        Inl e \<Rightarrow> (Inl e, s)
      | Inr _ \<Rightarrow>
          (Inr (),
           s\<lparr>currentPath_ssh := p,
             connectionInfo :=
               map_option (\<lambda>i. i\<lparr>info_currentPath := p\<rparr>) (connectionInfo s)\<rparr>))"

definition getCurrentPath_ssh :: "WebSocketSSHService \<Rightarrow> string" where
  "getCurrentPath_ssh s = currentPath_ssh s"

definition isConnected_ssh :: "WebSocketSSHService \<Rightarrow> bool" where
  "isConnected_ssh s =
     (connected s \<and> (case socket s of None \<Rightarrow> False | Some sk \<Rightarrow> socket_connected sk))"


text \<open>
  \<^verbatim>\<open>disconnect\<close>: when there is a socket and the service is connected, the request is
  sent and the acknowledgement awaited for at most 5 s; the promise resolves either
  way. \<^verbatim>\<open>cleanup\<close> runs on every path, also from the \<^verbatim>\<open>catch\<close> block.
\<close>

definition disconnect_ssh :: "broker \<Rightarrow> WebSocketSSHService \<Rightarrow> WebSocketSSHService" where
  "disconnect_ssh B s =
     (if socket s \<noteq> None \<and> connected s
      then (if on_disconnect B then cleanup s else cleanup s)
      else cleanup s)"

section \<open>Remote backend (\<^verbatim>\<open>RemoteFileSystem.ts\<close>)\<close>

text \<open>
  The adapter's only field is its \<^verbatim>\<open>sshService\<close>, so its state is the state of the
  transport. It checks \<^verbatim>\<open>isConnected\<close> before every contract call and replaces the
  transport's error by its own message, except in \<^verbatim>\<open>changeDirectory\<close> and
  \<^verbatim>\<open>executeCommand\<close>, which pass the transport's error on.
\<close>

definition listDirectory_remote ::
  "broker \<Rightarrow> string option \<Rightarrow> WebSocketSSHService \<Rightarrow> error + FileItem list" where
  "listDirectory_remote B p s =
     (if \<not> isConnected_ssh s then Inl NotConnectedToRemote
      else (case listDirectory_ssh B p s of
              Inl _ \<Rightarrow> Inl (FailedToListRemote (or_else p (getCurrentPath_ssh s)))
            | Inr files \<Rightarrow> Inr files))"

definition changeDirectory_remote ::
  "broker \<Rightarrow> string \<Rightarrow> WebSocketSSHService \<Rightarrow> (error + unit) \<times> WebSocketSSHService" where
  "changeDirectory_remote B p s =
     (if \<not> isConnected_ssh s then (Inl NotConnectedToRemote, s)
      else changeDirectory_ssh B p s)"


definition writeFile_remote ::
  "broker \<Rightarrow> string \<Rightarrow> string \<Rightarrow> WebSocketSSHService \<Rightarrow> error + unit" where
  "writeFile_remote B filePath content s =
     (if \<not> isConnected_ssh s then Inl NotConnectedToRemote
      else (case writeFile_ssh B filePath content s of
              Inl _ \<Rightarrow> Inl (FailedToWriteRemote filePath)
            | Inr u \<Rightarrow> Inr u))"

definition executeCommand_remote ::
  "broker \<Rightarrow> string \<Rightarrow> WebSocketSSHService \<Rightarrow> error + string" where
  "executeCommand_remote B command s =
     (if \<not> isConnected_ssh s then Inl NotConnectedToRemote
      else executeCommand_ssh B command s)"

section \<open>File-system manager (\<^verbatim>\<open>FileSystemManager.ts\<close>)\<close>

record 'fs FileSystemManager =
  currentFileSystem :: FileSystemSource
  localFS :: "'fs LocalFileSystem"
  remoteFS :: WebSocketSSHService

definition FileSystemManager_new :: "'fs platform \<Rightarrow> 'fs \<Rightarrow> 'fs FileSystemManager" where
  "FileSystemManager_new P d =
     \<lparr>currentFileSystem = Local, localFS = LocalFileSystem_new P d,
      remoteFS = WebSocketSSHService_new\<rparr>"

text \<open>
  A method that assigns no field returns its result only; a method that assigns one
  returns the result and the manager after the call. A \<^verbatim>\<open>throw\<close> is \<open>Inl\<close>.
\<close>

definition switchToLocal :: "'fs FileSystemManager \<Rightarrow> 'fs FileSystemManager" where
  "switchToLocal m = m\<lparr>currentFileSystem := Local\<rparr>"

definition switchToRemote ::
  "'fs FileSystemManager \<Rightarrow> (error + unit) \<times> 'fs FileSystemManager" where
  "switchToRemote m =
     (if \<not> isConnected_ssh (remoteFS m) then (Inl CannotSwitchNotConnected, m)
      else (Inr (), m\<lparr>currentFileSystem := Remote\<rparr>))"

definition connectToRemote ::
  "broker \<Rightarrow> SSHCredentials \<Rightarrow> 'fs FileSystemManager
     \<Rightarrow> (error + bool) \<times> 'fs FileSystemManager" where
  "connectToRemote B credentials m =
     (case connect_ssh B credentials (remoteFS m) of
        (Inl e, r) \<Rightarrow> (Inl e, m\<lparr>remoteFS := r\<rparr>)
      | (Inr success, r) \<Rightarrow>
          if success then (Inr success, m\<lparr>remoteFS := r, currentFileSystem := Remote\<rparr>)
          else (Inr success, m\<lparr>remoteFS := r\<rparr>))"

definition disconnectFromRemote :: "broker \<Rightarrow> 'fs FileSystemManager \<Rightarrow> 'fs FileSystemManager" where
  "disconnectFromRemote B m =
     m\<lparr>remoteFS := disconnect_ssh B (remoteFS m), currentFileSystem := Local\<rparr>"


definition listDirectory ::
  "'fs platform \<Rightarrow> broker \<Rightarrow> string option \<Rightarrow> 'fs FileSystemManager
     \<Rightarrow> error + FileItem list" where
  "listDirectory P B p m =
     (if currentFileSystem m = Local then listDirectory_local P p (localFS m)
      else listDirectory_remote B p (remoteFS m))"

definition changeDirectory ::
  "'fs platform \<Rightarrow> broker \<Rightarrow> string \<Rightarrow> 'fs FileSystemManager
     \<Rightarrow> (error + unit) \<times> 'fs FileSystemManager" where
  "changeDirectory P B p m =
     (if currentFileSystem m = Local
      then (case changeDirectory_local P p (localFS m) of
              (res, l) \<Rightarrow> (res, m\<lparr>localFS := l\<rparr>))
      else (case changeDirectory_remote B p (remoteFS m) of
              (res, r) \<Rightarrow> (res, m\<lparr>remoteFS := r\<rparr>)))"


definition writeFile ::
  "'fs platform \<Rightarrow> broker \<Rightarrow> string \<Rightarrow> string \<Rightarrow> 'fs FileSystemManager
     \<Rightarrow> (error + unit) \<times> 'fs FileSystemManager" where
  "writeFile P B filePath content m =
     (if currentFileSystem m = Local
      then (case writeFile_local P filePath content (localFS m) of
              (res, l) \<Rightarrow> (res, m\<lparr>localFS := l\<rparr>))
      else (writeFile_remote B filePath content (remoteFS m), m))"



definition executeCommand ::
  "broker \<Rightarrow> string \<Rightarrow> 'fs FileSystemManager \<Rightarrow> error + string" where
  "executeCommand B command m =
     (if currentFileSystem m \<noteq> Remote then Inl RemoteModeOnly
      else executeCommand_remote B command (remoteFS m))"

text \<open>
  \<^verbatim>\<open>setStreamingCallback\<close> has no \<^verbatim>\<open>else\<close> branch and no \<^verbatim>\<open>throw\<close>: outside remote
  mode it returns without doing anything.
\<close>

definition setStreamingCallback ::
  "nat \<Rightarrow> 'fs FileSystemManager \<Rightarrow> (error + unit) \<times> 'fs FileSystemManager" where
  "setStreamingCallback callback m =
     (if currentFileSystem m = Remote
      then (Inr (), m\<lparr>remoteFS := setStreamingCallback_ssh callback (remoteFS m)\<rparr>)
      else (Inr (), m))"

text \<open>
  \<^verbatim>\<open>String.prototype.lastIndexOf\<close> for one character (\<open>- 1\<close> when absent) and
  \<^verbatim>\<open>substring\<close>, which takes a negative index as 0.
\<close>

fun lastIndexOf :: "char \<Rightarrow> string \<Rightarrow> int" where
  "lastIndexOf c [] = - 1"
| "lastIndexOf c (x # xs) =
     (let r = lastIndexOf c xs in
      if 0 \<le> r then r + 1 else if x = c then 0 else - 1)"

definition substring_to :: "string \<Rightarrow> int \<Rightarrow> string" where
  \<comment> \<open>\<^verbatim>\<open>s.substring(0, j)\<close>\<close>
  "substring_to s j = take (nat j) s"

definition substring_from :: "string \<Rightarrow> int \<Rightarrow> string" where
  \<comment> \<open>\<^verbatim>\<open>s.substring(i)\<close>\<close>
  "substring_from s i = drop (nat i) s"

text \<open>The \<^verbatim>\<open>try\<close> block of \<^verbatim>\<open>pathExists\<close>, and the method with its \<^verbatim>\<open>catch\<close>.\<close>

definition pathExists_try ::
  "'fs platform \<Rightarrow> broker \<Rightarrow> string \<Rightarrow> 'fs FileSystemManager \<Rightarrow> error + bool" where
  "pathExists_try P B p m =
     (if currentFileSystem m = Local
      then (case listDirectory P B None m of
              Inl e \<Rightarrow> Inl e
            | Inr files \<Rightarrow> Inr (list_ex (\<lambda>file. path file = p) files))
      else (let parentPath = or_else (Some (substring_to p (lastIndexOf CHR ''/'' p))) ''/'';
                fileName = substring_from p (lastIndexOf CHR ''/'' p + 1)
            in case listDirectory P B (Some parentPath) m of
                 Inl e \<Rightarrow> Inl e
               | Inr files \<Rightarrow> Inr (list_ex (\<lambda>file. name file = fileName) files)))"

definition pathExists ::
  "'fs platform \<Rightarrow> broker \<Rightarrow> string \<Rightarrow> 'fs FileSystemManager
     \<Rightarrow> (error + bool) \<times> 'fs FileSystemManager" where
  "pathExists P B p m =
     (case pathExists_try P B p m of
        Inl _ \<Rightarrow> (Inr False, m)
      | Inr b \<Rightarrow> (Inr b, m))"

section \<open>Runs of the manager\<close>

text \<open>
  A session is a sequence of calls on the manager, interleaved with the two channel
  events that write a field of the transport. Each step meets its own broker.
\<close>

datatype action =
    Do_switchToLocal
  | Do_switchToRemote
  | Do_connectToRemote SSHCredentials
  | Do_disconnectFromRemote
  | Do_listDirectory "string option"
  | Do_changeDirectory string
  | Do_readFile string
  | Do_writeFile string string
  | Do_executeCommand string
  | Do_setStreamingCallback nat
  | Do_pathExists string
  | Ev_socket_disconnect
  | Ev_ssh_disconnected

fun step :: "'fs platform \<Rightarrow> broker \<times> action \<Rightarrow> 'fs FileSystemManager \<Rightarrow> 'fs FileSystemManager" where
  "step P (B, Do_switchToLocal) m = switchToLocal m"
| "step P (B, Do_switchToRemote) m = snd (switchToRemote m)"
| "step P (B, Do_connectToRemote c) m = snd (connectToRemote B c m)"
| "step P (B, Do_disconnectFromRemote) m = disconnectFromRemote B m"
| "step P (B, Do_listDirectory p) m = m"
| "step P (B, Do_changeDirectory p) m = snd (changeDirectory P B p m)"
| "step P (B, Do_readFile p) m = m"
| "step P (B, Do_writeFile p content) m = snd (writeFile P B p content m)"
| "step P (B, Do_executeCommand c) m = m"
| "step P (B, Do_setStreamingCallback cb) m = snd (setStreamingCallback cb m)"
| "step P (B, Do_pathExists p) m = snd (pathExists P B p m)"
| "step P (B, Ev_socket_disconnect) m = m\<lparr>remoteFS := on_socket_disconnect (remoteFS m)\<rparr>"
| "step P (B, Ev_ssh_disconnected) m = m\<lparr>remoteFS := on_ssh_disconnected (remoteFS m)\<rparr>"

fun run :: "'fs platform \<Rightarrow> (broker \<times> action) list \<Rightarrow> 'fs FileSystemManager \<Rightarrow> 'fs FileSystemManager" where
  "run P [] m = m"
| "run P (a # as) m = run P as (step P a m)"



section \<open>The simulated service (\<^verbatim>\<open>RealSSHService.connectFallback\<close>) and the form\<close>

record RealSSHService =
  isConnected_real :: bool
  currentCredentials :: "SSHCredentials option"
  currentPath_real :: string

text \<open>
  \<^verbatim>\<open>connectFallback\<close>. The source compares the password for one host with a string
  literal; the literal is the parameter \<open>gt_password\<close> here. The only test on the two
  secrets is that not both are falsy.
\<close>

definition connectFallback ::
  "string \<Rightarrow> SSHCredentials \<Rightarrow> RealSSHService \<Rightarrow> (error + bool) \<times> RealSSHService" where
  "connectFallback gt_password credentials s =
     (if \<not> truthy (password credentials) \<and> \<not> truthy (privateKey credentials)
      then (Inl NoPasswordOrKey, s)
      else if host credentials = ''panli-srv1.ece.gatech.edu''
              \<and> password credentials \<noteq> Some gt_password
      then (Inl InvalidPassword, s)
      else (Inr True,
            s\<lparr>isConnected_real := True, currentCredentials := Some credentials,
              currentPath_real :=
                or_else (initialPath credentials) (''/home/'' @ username credentials)\<rparr>))"

text \<open>
  \<^verbatim>\<open>handleConnect\<close> of the connection form: \<open>None\<close> is an alert without a call of
  \<^verbatim>\<open>onConnect\<close>, \<open>Some c\<close> is \<^verbatim>\<open>onConnect(c)\<close>. Only the secret of the selected method is
  tested.
\<close>

datatype authMethod = ByPassword | ByKey

definition handleConnect :: "authMethod \<Rightarrow> SSHCredentials \<Rightarrow> SSHCredentials option" where
  "handleConnect method credentials =
     (if host credentials = [] \<or> username credentials = [] then None
      else if method = ByPassword \<and> \<not> truthy (password credentials) then None
      else if method = ByKey \<and> \<not> truthy (privateKey credentials) then None
      else Some credentials)"

section \<open>Request and reply on the shared channel\<close>

text \<open>
  The promise executor of \<^verbatim>\<open>listDirectory\<close>, \<^verbatim>\<open>readFile\<close>, \<^verbatim>\<open>writeFile\<close> and
  \<^verbatim>\<open>executeCommand\<close>, event by event: \<^verbatim>\<open>setTimeout\<close>, two \<^verbatim>\<open>socket.once\<close>, one
  \<^verbatim>\<open>emit\<close>. A call is its number in the list of promises. A \<^verbatim>\<open>once\<close> listener is
  removed by Socket.IO when its own event is emitted; the source removes no listener
  itself. Settling a settled promise does nothing.
\<close>

datatype polarity = OnSuccess | OnError

datatype "value" = VFiles "FileItem list" | VString string | VUnit

datatype settled = Pending | Resolved "value" | Rejected error

datatype event =
    Request opkind                        \<comment> \<open>the client issues a call\<close>
  | ListDirSuccess "FileItem list"        \<comment> \<open>\<^verbatim>\<open>ssh:listDir:success\<close>\<close>
  | ListDirError string
  | ReadFileSuccess string string         \<comment> \<open>\<^verbatim>\<open>{filePath, content}\<close>\<close>
  | ReadFileError string
  | WriteFileSuccess
  | WriteFileError string
  | ExecuteCommandSuccess "string option" \<comment> \<open>the \<^verbatim>\<open>stdout\<close> of the result\<close>
  | ExecuteCommandError string
  | Elapse nat                            \<comment> \<open>milliseconds pass\<close>

record channel =
  clock :: nat
  listeners :: "(opkind \<times> polarity \<times> nat) list"
    \<comment> \<open>event name and call, in registration order\<close>
  timers :: "(nat \<times> opkind \<times> nat) list"
    \<comment> \<open>armed timers: call, operation, deadline\<close>
  promises :: "settled list"

definition channel_new :: channel where
  "channel_new = \<lparr>clock = 0, listeners = [], timers = [], promises = []\<rparr>"

fun timeout_ms :: "opkind \<Rightarrow> nat" where
  "timeout_ms ListDir = 15000"
| "timeout_ms ReadFile = 20000"
| "timeout_ms WriteFile = 20000"
| "timeout_ms ExecuteCommand = 30000"

fun event_name :: "event \<Rightarrow> (opkind \<times> polarity) option" where
  "event_name (ListDirSuccess _) = Some (ListDir, OnSuccess)"
| "event_name (ListDirError _) = Some (ListDir, OnError)"
| "event_name (ReadFileSuccess _ _) = Some (ReadFile, OnSuccess)"
| "event_name (ReadFileError _) = Some (ReadFile, OnError)"
| "event_name WriteFileSuccess = Some (WriteFile, OnSuccess)"
| "event_name (WriteFileError _) = Some (WriteFile, OnError)"
| "event_name (ExecuteCommandSuccess _) = Some (ExecuteCommand, OnSuccess)"
| "event_name (ExecuteCommandError _) = Some (ExecuteCommand, OnError)"
| "event_name (Request _) = None"
| "event_name (Elapse _) = None"

text \<open>What the listener of an event does to the promise of its call.\<close>

fun settle_with :: "event \<Rightarrow> settled" where
  "settle_with (ListDirSuccess files) = Resolved (VFiles files)"
| "settle_with (ListDirError e) = Rejected (BrokerError e)"
| "settle_with (ReadFileSuccess filePath content) = Resolved (VString content)"
| "settle_with (ReadFileError e) = Rejected (BrokerError e)"
| "settle_with WriteFileSuccess = Resolved VUnit"
| "settle_with (WriteFileError e) = Rejected (BrokerError e)"
| "settle_with (ExecuteCommandSuccess out) = Resolved (VString (or_else out []))"
| "settle_with (ExecuteCommandError e) = Rejected (BrokerError e)"
| "settle_with (Request _) = Pending"
| "settle_with (Elapse _) = Pending"

definition settle :: "nat \<Rightarrow> settled \<Rightarrow> settled list \<Rightarrow> settled list" where
  "settle i v ps = (if i < length ps \<and> ps ! i = Pending then ps[i := v] else ps)"

definition request :: "opkind \<Rightarrow> channel \<Rightarrow> nat \<times> channel" where
  "request op c =
     (let i = length (promises c) in
      (i, c\<lparr>promises := promises c @ [Pending],
            timers := timers c @ [(i, op, clock c + timeout_ms op)],
            listeners := listeners c @ [(op, OnSuccess, i), (op, OnError, i)]\<rparr>))"

text \<open>A listener body: \<^verbatim>\<open>clearTimeout(timeout)\<close>, then \<^verbatim>\<open>resolve\<close> or \<^verbatim>\<open>reject\<close>.\<close>

definition fire_listener :: "event \<Rightarrow> opkind \<times> polarity \<times> nat \<Rightarrow> channel \<Rightarrow> channel" where
  "fire_listener ev l c =
     c\<lparr>timers := filter (\<lambda>t. fst t \<noteq> snd (snd l)) (timers c),
       promises := settle (snd (snd l)) (settle_with ev) (promises c)\<rparr>"

definition listens_to :: "(opkind \<times> polarity) option \<Rightarrow> opkind \<times> polarity \<times> nat \<Rightarrow> bool" where
  "listens_to nm l = (nm = Some (fst l, fst (snd l)))"

definition deliver :: "event \<Rightarrow> channel \<Rightarrow> channel" where
  "deliver ev c =
     fold (fire_listener ev)
       (filter (listens_to (event_name ev)) (listeners c))
       (c\<lparr>listeners := filter (\<lambda>l. \<not> listens_to (event_name ev) l) (listeners c)\<rparr>)"

text \<open>A timer body: \<^verbatim>\<open>reject(new Error('... timeout'))\<close>.\<close>

definition fire_timer :: "nat \<times> opkind \<times> nat \<Rightarrow> channel \<Rightarrow> channel" where
  "fire_timer t c = c\<lparr>promises := settle (fst t) (Rejected (Timeout (fst (snd t)))) (promises c)\<rparr>"

definition elapse :: "nat \<Rightarrow> channel \<Rightarrow> channel" where
  "elapse d c =
     (let now = clock c + d in
      fold fire_timer
        (filter (\<lambda>t. snd (snd t) \<le> now) (timers c))
        (c\<lparr>clock := now, timers := filter (\<lambda>t. \<not> snd (snd t) \<le> now) (timers c)\<rparr>))"

fun occur :: "event \<Rightarrow> channel \<Rightarrow> channel" where
  "occur (Request op) c = snd (request op c)"
| "occur (Elapse d) c = elapse d c"
| "occur ev c = deliver ev c"

fun occur_all :: "event list \<Rightarrow> channel \<Rightarrow> channel" where
  "occur_all [] c = c"
| "occur_all (e # es) c = occur_all es (occur e c)"

fun elapsed :: "event list \<Rightarrow> nat" where
  "elapsed [] = 0"
| "elapsed (Elapse d # es) = d + elapsed es"
| "elapsed (_ # es) = elapsed es"

text \<open>Whether an event is a reply to an operation, of either polarity.\<close>

definition replies_to :: "opkind \<Rightarrow> event \<Rightarrow> bool" where
  "replies_to op ev = (event_name ev = Some (op, OnSuccess) \<or> event_name ev = Some (op, OnError))"

text \<open>
  The specification's word for a call whose listeners are gone: no listener of the
  call is registered any more.
\<close>

definition retired :: "nat \<Rightarrow> channel \<Rightarrow> bool" where
  "retired i c = list_all (\<lambda>l. snd (snd l) \<noteq> i) (listeners c)"

text \<open>Every listener and timer belongs to a call that has been issued.\<close>

definition wf_channel :: "channel \<Rightarrow> bool" where
  "wf_channel c =
     (list_all (\<lambda>l. snd (snd l) < length (promises c)) (listeners c)
      \<and> list_all (\<lambda>t. fst t < length (promises c)) (timers c))"

section \<open>Orderings of a listing\<close>

text \<open>
  A comparator is consistent when "at most 0" is a total preorder; this is what
  \<^verbatim>\<open>sort\<close> asks of its argument.
\<close>

definition consistent :: "('a \<Rightarrow> 'a \<Rightarrow> int) \<Rightarrow> bool" where
  "consistent cmp =
     ((\<forall>a b. cmp a b \<le> 0 \<or> cmp b a \<le> 0)
      \<and> (\<forall>a b c. cmp a b \<le> 0 \<longrightarrow> cmp b c \<le> 0 \<longrightarrow> cmp a c \<le> 0))"

text \<open>
  The order of the specification: every directory before every file, and within each
  group the names in the order \<open>le\<close>.
\<close>

definition dirs_first_sorted :: "(string \<Rightarrow> string \<Rightarrow> bool) \<Rightarrow> FileItem list \<Rightarrow> bool" where
  "dirs_first_sorted le items =
     sorted_wrt (\<lambda>a b. (isDirectory a \<and> \<not> isDirectory b)
                      \<or> (isDirectory a = isDirectory b \<and> le (name a) (name b))) items"

text \<open>Comparison of strings by code unit, as a comparator.\<close>

definition codeUnitCompare :: "string \<Rightarrow> string \<Rightarrow> int" where
  "codeUnitCompare a b = (if a < b then - 1 else if a = b then 0 else 1)"

section \<open>An example device and an example broker\<close>

text \<open>
  A device with one directory \<^verbatim>\<open>/docs\<close> holding a directory \<^verbatim>\<open>src\<close>, a file
  \<^verbatim>\<open>a.txt\<close> and an entry \<^verbatim>\<open>b.txt\<close> whose stat is rejected, and a directory
  \<^verbatim>\<open>/locked\<close> that can be statted and not listed.
\<close>

definition example_platform :: "unit platform" where
  "example_platform =
     \<lparr>documentDirectory = Some ''/docs'',
      readDirectoryAsync =
        (\<lambda>_ p. if p = ''/docs'' then Some [''b.txt'', ''src'', ''a.txt''] else None),
      getInfoAsync =
        (\<lambda>_ p. if p = ''/docs/b.txt'' then None
                else if p = ''/docs'' \<or> p = ''/docs/src'' \<or> p = ''/locked''
                then Some \<lparr>info_exists = True, info_isDirectory = True,
                           info_size = None, info_modificationTime = Some 5\<rparr>
                else if p = ''/docs/a.txt''
                then Some \<lparr>info_exists = True, info_isDirectory = False,
                           info_size = Some 12, info_modificationTime = Some 7\<rparr>
                else Some \<lparr>info_exists = False, info_isDirectory = False,
                           info_size = None, info_modificationTime = None\<rparr>),
      readAsStringAsync = (\<lambda>_ p. if p = ''/docs/a.txt'' then Some ''hello'' else None),
      writeAsStringAsync = (\<lambda>_ p content. if p = ''/docs/a.txt'' then Some () else None),
      localeCompare = codeUnitCompare\<rparr>"

definition example_local :: "unit LocalFileSystem" where
  "example_local = LocalFileSystem_new example_platform ()"

definition file_a :: FileItem where
  "file_a = \<lparr>name = ''a'', path = ''/work/a'', isFile = True, isDirectory = False,
             size_bytes = Some 1, modifiedDate = None\<rparr>"

definition dir_b :: FileItem where
  "dir_b = \<lparr>name = ''b'', path = ''/work/b'', isFile = False, isDirectory = True,
            size_bytes = None, modifiedDate = None\<rparr>"

text \<open>
  A broker that accepts every connection and answers a listing of \<^verbatim>\<open>/work\<close> with a
  file followed by a directory; it answers nothing else.
\<close>

definition example_broker :: broker where
  "example_broker =
     \<lparr>handshake = Success (),
      on_connect = (\<lambda>_. Success ()),
      on_listDir = (\<lambda>p. if p = ''/work'' then Success [file_a, dir_b] else NoReply),
      on_readFile = (\<lambda>_. NoReply),
      on_writeFile = (\<lambda>_ _. NoReply),
      on_executeCommand = (\<lambda>_. NoReply),
      on_disconnect = False\<rparr>"

text \<open>A broker that never answers.\<close>

definition silent_broker :: broker where
  "silent_broker =
     \<lparr>handshake = NoReply,
      on_connect = (\<lambda>_. NoReply),
      on_listDir = (\<lambda>_. NoReply),
      on_readFile = (\<lambda>_. NoReply),
      on_writeFile = (\<lambda>_ _. NoReply),
      on_executeCommand = (\<lambda>_. NoReply),
      on_disconnect = False\<rparr>"

definition example_credentials :: SSHCredentials where
  "example_credentials =
     \<lparr>host = ''h'', port = ''22'', username = ''u'', password = Some ''pw'',
      privateKey = None, initialPath = Some ''/work''\<rparr>"

definition example_manager :: "unit FileSystemManager" where
  "example_manager = FileSystemManager_new example_platform ()"

text \<open>The transport after a successful \<^verbatim>\<open>connect\<close> to the example broker.\<close>

definition example_service :: WebSocketSSHService where
  "example_service =
     snd (connect_ssh example_broker example_credentials WebSocketSSHService_new)"


text \<open>The example manager after a successful \<^verbatim>\<open>connectToRemote\<close>.\<close>

definition example_remote_manager :: "unit FileSystemManager" where
  "example_remote_manager =
     snd (connectToRemote example_broker example_credentials example_manager)"

text \<open>The example manager after its channel is lost, and with a current path that cannot be
  listed.\<close>

definition example_dropped_manager :: "unit FileSystemManager" where
  "example_dropped_manager =
     run example_platform [(silent_broker, Ev_socket_disconnect)] example_remote_manager"

definition example_locked_manager :: "unit FileSystemManager" where
  "example_locked_manager =
     run example_platform [(silent_broker, Do_changeDirectory ''/locked'')] example_manager"

text \<open>Credentials with both secrets, and with neither (an empty password, as the form sends).\<close>

definition both_credentials :: SSHCredentials where
  "both_credentials = example_credentials\<lparr>privateKey := Some ''key''\<rparr>"

definition neither_credentials :: SSHCredentials where
  "neither_credentials = example_credentials\<lparr>password := Some []\<rparr>"

text \<open>Credentials with both secrets for the host whose password the source checks.\<close>

definition gt_credentials :: SSHCredentials where
  "gt_credentials = both_credentials\<lparr>host := ''panli-srv1.ece.gatech.edu''\<rparr>"

definition RealSSHService_new :: RealSSHService where
  "RealSSHService_new =
     \<lparr>isConnected_real = False, currentCredentials = None, currentPath_real = ''/''\<rparr>"

text \<open>
  The two states of a call that has had no reply: its own timer is armed and not yet due,
  and every listener and timer carrying its number belongs to its operation; or its
  promise is rejected with the timeout of its operation.
\<close>

definition armed :: "nat \<Rightarrow> opkind \<Rightarrow> nat \<Rightarrow> channel \<Rightarrow> bool" where
  "armed i op dl c =
     (i < length (promises c) \<and> promises c ! i = Pending
      \<and> (i, op, dl) \<in> set (timers c) \<and> clock c < dl
      \<and> (\<forall>l \<in> set (listeners c). snd (snd l) = i \<longrightarrow> fst l = op)
      \<and> (\<forall>t \<in> set (timers c). fst t = i \<longrightarrow> fst (snd t) = op \<and> snd (snd t) = dl))"

definition timed_out :: "nat \<Rightarrow> opkind \<Rightarrow> channel \<Rightarrow> bool" where
  "timed_out i op c = (i < length (promises c) \<and> promises c ! i = Rejected (Timeout op))"

text \<open>
  The events by which the broker's answer to one request reaches the channel (no answer
  is the passing of the operation's deadline), and the outcome of a single call issued
  on a fresh channel and followed by these events.
\<close>

definition listDir_events :: "FileItem list reply \<Rightarrow> event list" where
  "listDir_events r =
     (case r of Success files \<Rightarrow> [ListDirSuccess files]
      | Failure e \<Rightarrow> [ListDirError e]
      | NoReply \<Rightarrow> [Elapse (timeout_ms ListDir)])"

definition readFile_events :: "string \<Rightarrow> string reply \<Rightarrow> event list" where
  "readFile_events filePath r =
     (case r of Success content \<Rightarrow> [ReadFileSuccess filePath content]
      | Failure e \<Rightarrow> [ReadFileError e]
      | NoReply \<Rightarrow> [Elapse (timeout_ms ReadFile)])"

definition writeFile_events :: "unit reply \<Rightarrow> event list" where
  "writeFile_events r =
     (case r of Success _ \<Rightarrow> [WriteFileSuccess]
      | Failure e \<Rightarrow> [WriteFileError e]
      | NoReply \<Rightarrow> [Elapse (timeout_ms WriteFile)])"

definition executeCommand_events :: "string option reply \<Rightarrow> event list" where
  "executeCommand_events r =
     (case r of Success out \<Rightarrow> [ExecuteCommandSuccess out]
      | Failure e \<Rightarrow> [ExecuteCommandError e]
      | NoReply \<Rightarrow> [Elapse (timeout_ms ExecuteCommand)])"

definition awaited :: "opkind \<Rightarrow> event list \<Rightarrow> settled" where
  "awaited op es = promises (occur_all es (snd (request op channel_new))) ! 0"

section \<open>Properties of the sort\<close>

lemma mset_insert_by: "mset (insert_by cmp x xs) = add_mset x (mset xs)"
  by (induction xs) auto

lemma mset_sort_by: "mset (sort_by cmp xs) = mset xs"
  unfolding sort_by_def by (induction xs) (auto simp: mset_insert_by)

lemma set_insert_by: "set (insert_by cmp x xs) = insert x (set xs)"
  by (induction xs) auto

lemma set_sort_by: "set (sort_by cmp xs) = set xs"
  unfolding sort_by_def by (induction xs) (auto simp: set_insert_by)

lemma length_sort_by: "length (sort_by cmp xs) = length xs"
  using mset_sort_by [of cmp xs] by (metis size_mset)

lemma sorted_insert_by:
  assumes "consistent cmp" "sorted_wrt (\<lambda>a b. cmp a b \<le> 0) xs"
  shows "sorted_wrt (\<lambda>a b. cmp a b \<le> 0) (insert_by cmp x xs)"
  using assms(2)
proof (induction xs)
  case Nil
  then show ?case by simp
next
  case (Cons y ys)
  show ?case
  proof (cases "cmp x y \<le> 0")
    case True
    have "\<forall>z\<in>set ys. cmp x z \<le> 0"
      using True Cons.prems assms(1) unfolding consistent_def by (metis sorted_wrt.simps(2))
    with True Cons.prems show ?thesis by simp
  next
    case False
    then have yx: "cmp y x \<le> 0" using assms(1) unfolding consistent_def by blast
    from Cons have "sorted_wrt (\<lambda>a b. cmp a b \<le> 0) (insert_by cmp x ys)" by simp
    with False yx Cons.prems show ?thesis by (auto simp: set_insert_by)
  qed
qed

lemma sorted_sort_by:
  "consistent cmp \<Longrightarrow> sorted_wrt (\<lambda>a b. cmp a b \<le> 0) (sort_by cmp xs)"
  unfolding sort_by_def by (induction xs) (auto intro: sorted_insert_by)

lemma consistent_compareItems:
  assumes "consistent (localeCompare P)"
  shows "consistent (compareItems P)"
proof -
  have tot: "\<And>a b. localeCompare P a b \<le> 0 \<or> localeCompare P b a \<le> 0"
    using assms unfolding consistent_def by blast
  have tr: "\<And>a b c. localeCompare P a b \<le> 0 \<Longrightarrow> localeCompare P b c \<le> 0
              \<Longrightarrow> localeCompare P a c \<le> 0"
    using assms unfolding consistent_def by blast
  have 1: "compareItems P a b \<le> 0 \<or> compareItems P b a \<le> 0" for a b
    using tot [of "name a" "name b"] by (simp add: compareItems_def)
  have 2: "compareItems P a c \<le> 0"
    if "compareItems P a b \<le> 0" "compareItems P b c \<le> 0" for a b c
    using that tr [of "name a" "name b" "name c"]
    by (cases "isDirectory a"; cases "isDirectory b"; cases "isDirectory c")
       (simp_all add: compareItems_def)
  show ?thesis unfolding consistent_def using 1 2 by blast
qed

lemma consistent_codeUnitCompare: "consistent codeUnitCompare"
  unfolding consistent_def codeUnitCompare_def by auto

lemma example_service_eq:
  "example_service =
     \<lparr>socket = Some (Socket True), connected = True, currentPath_ssh = ''/work'',
      connectionInfo =
        Some \<lparr>info_host = ''h'', info_username = ''u'', info_currentPath = ''/work''\<rparr>,
      streamingCallback = None\<rparr>"
  by (simp add: example_service_def connect_ssh_def example_broker_def example_credentials_def
        WebSocketSSHService_new_def waitForSocketConnection_def connectSSH_def or_else_def
        Let_def)

lemma example_listing:
  "listDirectory_remote example_broker None example_service = Inr [file_a, dir_b]"
  by (simp add: example_service_eq listDirectory_remote_def listDirectory_ssh_def
        isConnected_ssh_def example_broker_def or_else_def Let_def)

lemma example_local_listing:
  "listDirectory_local example_platform None example_local =
     Inr [\<lparr>name = ''src'', path = ''/docs/src'', isFile = False,
            isDirectory = True, size_bytes = None, modifiedDate = Some 5000\<rparr>,
          \<lparr>name = ''a.txt'', path = ''/docs/a.txt'', isFile = True,
            isDirectory = False, size_bytes = Some 12, modifiedDate = Some 7000\<rparr>,
          \<lparr>name = ''b.txt'', path = ''/docs/b.txt'', isFile = True,
            isDirectory = False, size_bytes = None, modifiedDate = None\<rparr>]"
  by code_simp

section \<open>Listings of the local backend are complete\<close>

text \<open>
  Claim C9. When the storage primitive returns the names of a directory, the local
  backend's \<^verbatim>\<open>listDirectory\<close> succeeds with exactly one item per name, whatever the
  per-entry stats do: the list has the length of the list of names and carries the same
  names with the same multiplicities, and every name whose stat is rejected is present
  as a file (\<^verbatim>\<open>isFile\<close> true, \<^verbatim>\<open>isDirectory\<close> false) with no size and no date.
\<close>

theorem listDirectory_local_complete:
  assumes "readDirectoryAsync P (disk s) (or_else p (currentPath_local s)) = Some files"
  shows "\<exists>items. listDirectory_local P p s = Inr items
           \<and> length items = length files
           \<and> mset (map name items) = mset files
           \<and> (\<forall>f \<in> set files.
                 getInfoAsync P (disk s) (fullPath (or_else p (currentPath_local s)) f) = None
                 \<longrightarrow> \<lparr>name = f, path = fullPath (or_else p (currentPath_local s)) f,
                       isFile = True, isDirectory = False,
                       size_bytes = None, modifiedDate = None\<rparr> \<in> set items)"
proof -
  let ?t = "or_else p (currentPath_local s)"
  let ?items = "sort_by (compareItems P) (map (statEntry P (disk s) ?t) files)"
  have res: "listDirectory_local P p s = Inr ?items"
    using assms by (simp add: listDirectory_local_def)
  have len: "length ?items = length files" by (simp add: length_sort_by)
  have nm: "name (statEntry P d t f) = f" for d t f
    by (simp add: statEntry_def split: option.splits)
  have "mset (map name ?items) = image_mset name (mset ?items)" by simp
  also have "\<dots> = image_mset name (mset (map (statEntry P (disk s) ?t) files))"
    by (simp only: mset_sort_by)
  also have "\<dots> = mset files"
    by (simp add: nm image_mset.compositionality comp_def flip: mset_map)
  finally have names: "mset (map name ?items) = mset files" .
  have failed: "\<lparr>name = f, path = fullPath ?t f, isFile = True, isDirectory = False,
                 size_bytes = None, modifiedDate = None\<rparr> \<in> set ?items"
    if "f \<in> set files" "getInfoAsync P (disk s) (fullPath ?t f) = None" for f
  proof -
    have "statEntry P (disk s) ?t f \<in> set ?items"
      using that(1) by (simp add: set_sort_by)
    then show ?thesis using that(2) by (simp add: statEntry_def)
  qed
  show ?thesis using res len names failed by blast
qed

theorem listDirectory_local_complete_witness:
  "readDirectoryAsync example_platform (disk example_local)
       (or_else None (currentPath_local example_local)) = Some [''b.txt'', ''src'', ''a.txt'']
   \<and> (\<exists>items. listDirectory_local example_platform None example_local = Inr items
           \<and> length items = 3
           \<and> \<lparr>name = ''b.txt'', path = ''/docs/b.txt'', isFile = True, isDirectory = False,
                size_bytes = None, modifiedDate = None\<rparr> \<in> set items)"
proof -
  have h: "readDirectoryAsync example_platform (disk example_local)
             (or_else None (currentPath_local example_local))
           = Some [''b.txt'', ''src'', ''a.txt'']"
    by (simp add: example_platform_def example_local_def LocalFileSystem_new_def or_else_def)
  have p: "fullPath (or_else None (currentPath_local example_local)) ''b.txt'' = ''/docs/b.txt''"
    by (simp add: example_platform_def example_local_def LocalFileSystem_new_def or_else_def
          fullPath_def endsWithSlash_def)
  have g: "getInfoAsync example_platform (disk example_local) ''/docs/b.txt'' = None"
    by (simp add: example_platform_def)
  from listDirectory_local_complete [OF h] obtain items where
    i: "listDirectory_local example_platform None example_local = Inr items"
       "length items = length [''b.txt'', ''src'', ''a.txt'']"
       "\<forall>f \<in> set [''b.txt'', ''src'', ''a.txt''].
          getInfoAsync example_platform (disk example_local)
            (fullPath (or_else None (currentPath_local example_local)) f) = None
          \<longrightarrow> \<lparr>name = f, path = fullPath (or_else None (currentPath_local example_local)) f,
                isFile = True, isDirectory = False,
                size_bytes = None, modifiedDate = None\<rparr> \<in> set items"
    by blast
  from i(3) p g have "\<lparr>name = ''b.txt'', path = ''/docs/b.txt'', isFile = True,
      isDirectory = False, size_bytes = None, modifiedDate = None\<rparr> \<in> set items"
    by simp
  with h i(1,2) show ?thesis by simp
qed

section \<open>The order of a listing\<close>

lemma compareItems_order:
  "compareItems P a b \<le> 0 \<Longrightarrow>
     (isDirectory a \<and> \<not> isDirectory b)
     \<or> (isDirectory a = isDirectory b \<and> localeCompare P (name a) (name b) \<le> 0)"
  by (auto simp: compareItems_def split: if_splits)

text \<open>
  Claim C2, as the code has it. The local backend sorts: when \<^verbatim>\<open>localeCompare\<close> is a
  consistent comparator, every listing it returns has all directories before all files
  and, within each group, the names in the order of \<^verbatim>\<open>localeCompare\<close>. The remote
  backend does not sort: a listing it returns is the sequence of the broker's success
  reply for the target path, in the broker's order.
\<close>

theorem listDirectory_order:
  assumes "consistent (localeCompare P)"
  shows "(listDirectory_local P p s = Inr items
            \<longrightarrow> dirs_first_sorted (\<lambda>x y. localeCompare P x y \<le> 0) items)
         \<and> (listDirectory_remote B q r = Inr files
            \<longrightarrow> on_listDir B (or_else q (currentPath_ssh r)) = Success files)"
proof
  show "listDirectory_local P p s = Inr items
          \<longrightarrow> dirs_first_sorted (\<lambda>x y. localeCompare P x y \<le> 0) items"
  proof
    assume a: "listDirectory_local P p s = Inr items"
    then obtain xs where "items = sort_by (compareItems P) xs"
      by (auto simp: listDirectory_local_def Let_def split: option.splits)
    then have "sorted_wrt (\<lambda>a b. compareItems P a b \<le> 0) items"
      using sorted_sort_by [OF consistent_compareItems [OF assms]] by simp
    then show "dirs_first_sorted (\<lambda>x y. localeCompare P x y \<le> 0) items"
      unfolding dirs_first_sorted_def
      by (rule sorted_wrt_mono_rel [rotated]) (auto dest: compareItems_order)
  qed
next
  show "listDirectory_remote B q r = Inr files
          \<longrightarrow> on_listDir B (or_else q (currentPath_ssh r)) = Success files"
    by (auto simp: listDirectory_remote_def listDirectory_ssh_def Let_def
             split: if_splits reply.splits sum.splits)
qed

theorem listDirectory_order_witness:
  "consistent (localeCompare example_platform)
   \<and> dirs_first_sorted (\<lambda>x y. localeCompare example_platform x y \<le> 0)
        [\<lparr>name = ''src'', path = ''/docs/src'', isFile = False,
            isDirectory = True, size_bytes = None, modifiedDate = Some 5000\<rparr>,
          \<lparr>name = ''a.txt'', path = ''/docs/a.txt'', isFile = True,
            isDirectory = False, size_bytes = Some 12, modifiedDate = Some 7000\<rparr>,
          \<lparr>name = ''b.txt'', path = ''/docs/b.txt'', isFile = True,
            isDirectory = False, size_bytes = None, modifiedDate = None\<rparr>]
   \<and> on_listDir example_broker (or_else None (currentPath_ssh example_service))
          = Success [file_a, dir_b]"
proof -
  have c: "consistent (localeCompare example_platform)"
    by (simp add: example_platform_def consistent_codeUnitCompare)
  show ?thesis
    using c example_local_listing example_listing
      listDirectory_order [OF c, of None example_local _ example_broker None example_service
        "[file_a, dir_b]"]
    by simp
qed

text \<open>
  The claim as it is written fails for the remote backend: connected to the example
  broker, it returns a file before a directory.
\<close>

theorem remote_listing_unsorted:
  "listDirectory_remote example_broker None example_service = Inr [file_a, dir_b]
   \<and> \<not> dirs_first_sorted (\<le>) [file_a, dir_b]"
  using example_listing by (simp add: dirs_first_sorted_def file_a_def dir_b_def)

section \<open>Switching between the backends\<close>

lemma connected_cleanup [simp]: "connected (cleanup s) = False"
  by (simp add: cleanup_def)


lemma connect_ssh_cases:
  "connect_ssh B c s = (res, r) \<Longrightarrow>
     (res = Inr True \<and> isConnected_ssh r) \<or> ((\<exists>e. res = Inl e) \<and> \<not> connected r)"
  by (auto simp: connect_ssh_def waitForSocketConnection_def connectSSH_def Let_def
        isConnected_ssh_def split: reply.splits sum.splits if_splits)

lemma connectToRemote_cases:
  "(fst (connectToRemote B c m) = Inr True
      \<and> isConnected_ssh (remoteFS (snd (connectToRemote B c m)))
      \<and> currentFileSystem (snd (connectToRemote B c m)) = Remote)
   \<or> ((\<exists>e. fst (connectToRemote B c m) = Inl e)
      \<and> \<not> connected (remoteFS (snd (connectToRemote B c m)))
      \<and> currentFileSystem (snd (connectToRemote B c m)) = currentFileSystem m)"
proof (cases "connect_ssh B c (remoteFS m)")
  case (Pair res r)
  from connect_ssh_cases [OF Pair] show ?thesis
    using Pair by (auto simp: connectToRemote_def)
qed








lemma example_connect:
  "connectToRemote example_broker example_credentials example_manager
     = (Inr True, \<lparr>currentFileSystem = Remote, localFS = example_local,
                   remoteFS = example_service\<rparr>)"
  by (simp add: connectToRemote_def example_manager_def FileSystemManager_new_def
        example_service_eq example_local_def
        connect_ssh_def example_broker_def example_credentials_def
        WebSocketSSHService_new_def waitForSocketConnection_def connectSSH_def or_else_def
        Let_def)

lemma example_remote_manager_eq:
  "example_remote_manager =
     \<lparr>currentFileSystem = Remote, localFS = example_local, remoteFS = example_service\<rparr>"
  by (simp add: example_remote_manager_def example_connect)

lemma silent_connect:
  "connectToRemote silent_broker c m
     = (Inl SocketConnectionTimeout, m\<lparr>remoteFS := cleanup ((remoteFS m)\<lparr>socket := Some (Socket False)\<rparr>)\<rparr>)"
  by (simp add: connectToRemote_def connect_ssh_def waitForSocketConnection_def
        silent_broker_def Let_def)



lemma example_dropped_manager_eq:
  "example_dropped_manager =
     \<lparr>currentFileSystem = Remote, localFS = example_local,
      remoteFS = \<lparr>socket = Some (Socket False), connected = False, currentPath_ssh = ''/work'',
        connectionInfo =
          Some \<lparr>info_host = ''h'', info_username = ''u'', info_currentPath = ''/work''\<rparr>,
        streamingCallback = None\<rparr>\<rparr>"
  by (simp add: example_dropped_manager_def example_remote_manager_eq example_service_eq
        on_socket_disconnect_def)

lemma example_locked_manager_eq:
  "example_locked_manager =
     \<lparr>currentFileSystem = Local,
      localFS = \<lparr>currentPath_local = ''/locked'', disk = ()\<rparr>,
      remoteFS = WebSocketSSHService_new\<rparr>"
  by (simp add: example_locked_manager_def example_manager_def FileSystemManager_new_def
        changeDirectory_def changeDirectory_local_def LocalFileSystem_new_def
        example_platform_def or_else_def)

lemma pathExists_example:
  "pathExists example_platform example_broker ''/work/a'' example_remote_manager
     = (Inr True, example_remote_manager)"
  by (simp add: pathExists_def pathExists_try_def example_remote_manager_eq listDirectory_def
        listDirectory_remote_def listDirectory_ssh_def isConnected_ssh_def example_service_eq
        example_broker_def or_else_def substring_to_def substring_from_def file_a_def dir_b_def
        Let_def)

section \<open>Disconnecting\<close>

text \<open>
  Claim C4. From every state of the manager and whatever the broker does with the
  disconnect request (acknowledgement or none within the 5 s), \<^verbatim>\<open>disconnectFromRemote\<close>
  returns with the selector \<^verbatim>\<open>local\<close> and with the remote backend not connected:
  \<^verbatim>\<open>isConnected()\<close> of the remote backend is false, its \<^verbatim>\<open>connected\<close> flag is false and
  its socket is released.
\<close>

theorem disconnectFromRemote_local:
  "currentFileSystem (disconnectFromRemote B m) = Local
   \<and> \<not> isConnected_ssh (remoteFS (disconnectFromRemote B m))
   \<and> \<not> connected (remoteFS (disconnectFromRemote B m))
   \<and> socket (remoteFS (disconnectFromRemote B m)) = None"
  by (simp add: disconnectFromRemote_def disconnect_ssh_def cleanup_def isConnected_ssh_def)

section \<open>Connecting\<close>

text \<open>
  Claim C5. \<^verbatim>\<open>connectToRemote\<close> sets the selector to \<^verbatim>\<open>remote\<close> when the remote
  backend's \<^verbatim>\<open>connect\<close> returns \<^verbatim>\<open>true\<close>; in every execution in which \<^verbatim>\<open>connect\<close>
  returns \<^verbatim>\<open>false\<close> or throws, the selector after the call is the selector before it.
\<close>

theorem connectToRemote_selector:
  "(fst (connectToRemote B c m) = Inr True
      \<longrightarrow> currentFileSystem (snd (connectToRemote B c m)) = Remote)
   \<and> (fst (connectToRemote B c m) \<noteq> Inr True
      \<longrightarrow> currentFileSystem (snd (connectToRemote B c m)) = currentFileSystem m)"
  using connectToRemote_cases [of B c m] by auto

theorem connectToRemote_selector_witness:
  "fst (connectToRemote example_broker example_credentials example_manager) = Inr True
   \<and> currentFileSystem (snd (connectToRemote example_broker example_credentials example_manager))
       = Remote
   \<and> fst (connectToRemote silent_broker example_credentials example_manager) \<noteq> Inr True
   \<and> currentFileSystem (snd (connectToRemote silent_broker example_credentials example_manager))
       = currentFileSystem example_manager"
  using connectToRemote_selector [of example_broker example_credentials example_manager]
        connectToRemote_selector [of silent_broker example_credentials example_manager]
  by (simp add: example_connect silent_connect)

section \<open>Calls for the remote mode only\<close>

text \<open>
  Claim C6, as the code has it. While the selector is not \<^verbatim>\<open>remote\<close>,
  \<^verbatim>\<open>executeCommand\<close> throws "Command execution only available in remote mode", and
  \<^verbatim>\<open>setStreamingCallback\<close> returns normally without registering the callback and without
  changing the manager.
\<close>

theorem remote_only_calls:
  "currentFileSystem m \<noteq> Remote \<Longrightarrow>
     executeCommand B command m = Inl RemoteModeOnly
     \<and> setStreamingCallback callback m = (Inr (), m)"
  by (simp add: executeCommand_def setStreamingCallback_def)

theorem remote_only_calls_witness:
  "currentFileSystem example_manager \<noteq> Remote
   \<and> executeCommand example_broker ''ls'' example_manager = Inl RemoteModeOnly
   \<and> setStreamingCallback 1 example_manager = (Inr (), example_manager)"
proof -
  have h: "currentFileSystem example_manager \<noteq> Remote"
    by (simp add: example_manager_def FileSystemManager_new_def)
  from remote_only_calls [OF h, of example_broker "''ls''" 1] h show ?thesis by simp
qed

text \<open>
  The claim as it is written fails: in local mode \<^verbatim>\<open>setStreamingCallback\<close> does not
  throw.
\<close>

theorem setStreamingCallback_does_not_fail:
  "currentFileSystem example_manager \<noteq> Remote
   \<and> fst (setStreamingCallback 1 example_manager) \<noteq> Inl RemoteModeOnly
   \<and> fst (setStreamingCallback 1 example_manager) = Inr ()"
  by (simp add: example_manager_def FileSystemManager_new_def setStreamingCallback_def)

section \<open>\<^verbatim>\<open>pathExists\<close>\<close>

text \<open>
  Claim C10. For every path and every state of the manager, \<^verbatim>\<open>pathExists\<close> returns a
  boolean and never throws, and it leaves the manager as it was. Whenever its \<^verbatim>\<open>try\<close>
  block throws the result is \<^verbatim>\<open>false\<close>: in particular when the listing of the local
  backend fails, and when the selector is \<^verbatim>\<open>remote\<close> and the remote backend is not
  connected.
\<close>

theorem pathExists_never_throws:
  "(\<exists>b. fst (pathExists P B p m) = Inr b)
   \<and> snd (pathExists P B p m) = m
   \<and> (pathExists_try P B p m = Inl e \<longrightarrow> fst (pathExists P B p m) = Inr False)
   \<and> (currentFileSystem m = Local \<and> listDirectory P B None m = Inl e
        \<longrightarrow> fst (pathExists P B p m) = Inr False)
   \<and> (currentFileSystem m = Remote \<and> \<not> isConnected_ssh (remoteFS m)
        \<longrightarrow> fst (pathExists P B p m) = Inr False)"
  by (auto simp: pathExists_def pathExists_try_def listDirectory_def listDirectory_remote_def
        Let_def split: sum.splits)


theorem pathExists_never_throws_witness:
  "pathExists_try example_platform silent_broker ''/locked/x'' example_locked_manager
     = Inl (FailedToList ''/locked'')
   \<and> currentFileSystem example_locked_manager = Local
   \<and> listDirectory example_platform silent_broker None example_locked_manager
       = Inl (FailedToList ''/locked'')
   \<and> pathExists example_platform silent_broker ''/locked/x'' example_locked_manager
       = (Inr False, example_locked_manager)
   \<and> currentFileSystem example_dropped_manager = Remote
   \<and> \<not> isConnected_ssh (remoteFS example_dropped_manager)
   \<and> pathExists example_platform example_broker ''/work/a'' example_dropped_manager
       = (Inr False, example_dropped_manager)"
proof -
  have l: "listDirectory example_platform silent_broker None example_locked_manager
       = Inl (FailedToList ''/locked'')"
    by (simp add: example_locked_manager_eq listDirectory_def listDirectory_local_def
          example_platform_def or_else_def)
  have t: "pathExists_try example_platform silent_broker ''/locked/x'' example_locked_manager
     = Inl (FailedToList ''/locked'')"
    using l by (simp add: pathExists_try_def example_locked_manager_eq)
  have c: "currentFileSystem example_locked_manager = Local"
    by (simp add: example_locked_manager_eq)
  have r: "currentFileSystem example_dropped_manager = Remote"
    by (simp add: example_dropped_manager_eq)
  have n: "\<not> isConnected_ssh (remoteFS example_dropped_manager)"
    by (simp add: example_dropped_manager_eq isConnected_ssh_def)
  show ?thesis
    using l t c r n
      pathExists_never_throws [of example_platform silent_broker "''/locked/x''"
         example_locked_manager "FailedToList ''/locked''"]
      pathExists_never_throws [of example_platform example_broker "''/work/a''"
         example_dropped_manager]
    by (simp add: prod_eq_iff)
qed

section \<open>What a connect attempt checks\<close>

text \<open>
  Claim C7, as the code has it. No layer asks for exactly one secret.
  \<^verbatim>\<open>connectFallback\<close> throws "No password or private key provided" exactly for the
  credentials with neither a non-empty password nor a non-empty private key. It throws
  "Authentication failed: Invalid password" exactly for the credentials with at least one
  secret whose host is the one host named in the source and whose password is not the
  one written there. It accepts all other credentials, those with both secrets included.
  A rejection leaves the service as it was. \<^verbatim>\<open>WebSocketSSHService.connect\<close> checks neither
  field: its result is decided by the handshake and by the broker's reply to the connect
  request alone. The form's \<^verbatim>\<open>handleConnect\<close> hands on the credentials exactly when host
  and user name are non-empty and the secret of the selected method is non-empty,
  whatever the other secret is; otherwise it hands on nothing.
\<close>

theorem connect_checks:
  "(fst (connectFallback gt_password c s) = Inl NoPasswordOrKey
      \<longleftrightarrow> \<not> truthy (password c) \<and> \<not> truthy (privateKey c))
   \<and> (fst (connectFallback gt_password c s) = Inl InvalidPassword
      \<longleftrightarrow> (truthy (password c) \<or> truthy (privateKey c))
          \<and> host c = ''panli-srv1.ece.gatech.edu'' \<and> password c \<noteq> Some gt_password)
   \<and> (fst (connectFallback gt_password c s) = Inr True
      \<longleftrightarrow> (truthy (password c) \<or> truthy (privateKey c))
          \<and> (host c = ''panli-srv1.ece.gatech.edu'' \<longrightarrow> password c = Some gt_password))
   \<and> (fst (connectFallback gt_password c s) \<noteq> Inr True
      \<longrightarrow> snd (connectFallback gt_password c s) = s)
   \<and> fst (connect_ssh B c r)
       = (case handshake B of
            NoReply \<Rightarrow> Inl SocketConnectionTimeout
          | Failure m \<Rightarrow> Inl (SocketConnectionFailed m)
          | Success _ \<Rightarrow>
              (case on_connect B c of
                 NoReply \<Rightarrow> Inl SSHConnectionTimeout
               | Failure e \<Rightarrow> Inl (SSHConnectionFailed e)
               | Success _ \<Rightarrow> Inr True))
   \<and> (handleConnect method c = Some c
      \<longleftrightarrow> host c \<noteq> [] \<and> username c \<noteq> []
          \<and> (method = ByPassword \<longrightarrow> truthy (password c))
          \<and> (method = ByKey \<longrightarrow> truthy (privateKey c)))
   \<and> (handleConnect method c \<noteq> Some c \<longrightarrow> handleConnect method c = None)"
proof (intro conjI)
  show "fst (connectFallback gt_password c s) = Inl NoPasswordOrKey
      \<longleftrightarrow> \<not> truthy (password c) \<and> \<not> truthy (privateKey c)"
    by (simp add: connectFallback_def)
  show "fst (connectFallback gt_password c s) = Inl InvalidPassword
      \<longleftrightarrow> (truthy (password c) \<or> truthy (privateKey c))
          \<and> host c = ''panli-srv1.ece.gatech.edu'' \<and> password c \<noteq> Some gt_password"
    by (simp add: connectFallback_def)
  show "fst (connectFallback gt_password c s) = Inr True
      \<longleftrightarrow> (truthy (password c) \<or> truthy (privateKey c))
          \<and> (host c = ''panli-srv1.ece.gatech.edu'' \<longrightarrow> password c = Some gt_password)"
    by (simp add: connectFallback_def)
  show "fst (connectFallback gt_password c s) \<noteq> Inr True
      \<longrightarrow> snd (connectFallback gt_password c s) = s"
    by (simp add: connectFallback_def)
  show "fst (connect_ssh B c r)
       = (case handshake B of
            NoReply \<Rightarrow> Inl SocketConnectionTimeout
          | Failure m \<Rightarrow> Inl (SocketConnectionFailed m)
          | Success _ \<Rightarrow>
              (case on_connect B c of
                 NoReply \<Rightarrow> Inl SSHConnectionTimeout
               | Failure e \<Rightarrow> Inl (SSHConnectionFailed e)
               | Success _ \<Rightarrow> Inr True))"
    by (cases "handshake B"; cases "on_connect B c")
       (simp_all add: connect_ssh_def waitForSocketConnection_def connectSSH_def Let_def)
  show "handleConnect method c = Some c
      \<longleftrightarrow> host c \<noteq> [] \<and> username c \<noteq> []
          \<and> (method = ByPassword \<longrightarrow> truthy (password c))
          \<and> (method = ByKey \<longrightarrow> truthy (privateKey c))"
    by (cases "method") (simp_all add: handleConnect_def)
  show "handleConnect method c \<noteq> Some c \<longrightarrow> handleConnect method c = None"
    by (simp add: handleConnect_def)
qed


theorem connect_checks_witness:
  "\<not> truthy (password neither_credentials) \<and> \<not> truthy (privateKey neither_credentials)
   \<and> connectFallback ''secret'' neither_credentials RealSSHService_new
       = (Inl NoPasswordOrKey, RealSSHService_new)
   \<and> truthy (password both_credentials) \<and> truthy (privateKey both_credentials)
   \<and> host both_credentials \<noteq> ''panli-srv1.ece.gatech.edu''
   \<and> fst (connectFallback ''secret'' both_credentials RealSSHService_new) = Inr True
   \<and> truthy (password gt_credentials) \<and> truthy (privateKey gt_credentials)
   \<and> host gt_credentials = ''panli-srv1.ece.gatech.edu''
   \<and> password gt_credentials \<noteq> Some ''secret''
   \<and> connectFallback ''secret'' gt_credentials RealSSHService_new
       = (Inl InvalidPassword, RealSSHService_new)
   \<and> fst (connect_ssh example_broker both_credentials WebSocketSSHService_new) = Inr True
   \<and> fst (connect_ssh example_broker neither_credentials WebSocketSSHService_new) = Inr True
   \<and> fst (connect_ssh silent_broker both_credentials WebSocketSSHService_new)
       = Inl SocketConnectionTimeout
   \<and> handleConnect ByPassword both_credentials = Some both_credentials
   \<and> handleConnect ByKey both_credentials = Some both_credentials
   \<and> handleConnect ByPassword neither_credentials = None
   \<and> handleConnect ByKey neither_credentials = None"
proof -
  have n: "\<not> truthy (password neither_credentials) \<and> \<not> truthy (privateKey neither_credentials)"
    by (simp add: neither_credentials_def example_credentials_def)
  have b: "truthy (password both_credentials) \<and> truthy (privateKey both_credentials)
           \<and> host both_credentials \<noteq> ''panli-srv1.ece.gatech.edu''"
    by (simp add: both_credentials_def example_credentials_def)
  have g: "truthy (password gt_credentials) \<and> truthy (privateKey gt_credentials)
           \<and> host gt_credentials = ''panli-srv1.ece.gatech.edu''
           \<and> password gt_credentials \<noteq> Some ''secret''"
    by (simp add: gt_credentials_def both_credentials_def example_credentials_def)
  have u: "host both_credentials \<noteq> [] \<and> username both_credentials \<noteq> []"
    by (simp add: both_credentials_def example_credentials_def)
  note xp = connect_checks [of "''secret''" neither_credentials RealSSHService_new
         example_broker WebSocketSSHService_new ByPassword]
  note xk = connect_checks [of "''secret''" neither_credentials RealSSHService_new
         example_broker WebSocketSSHService_new ByKey]
  note yp = connect_checks [of "''secret''" both_credentials RealSSHService_new
         example_broker WebSocketSSHService_new ByPassword]
  note yk = connect_checks [of "''secret''" both_credentials RealSSHService_new
         silent_broker WebSocketSSHService_new ByKey]
  note z = connect_checks [of "''secret''" gt_credentials RealSSHService_new
         example_broker WebSocketSSHService_new ByPassword]
  from xp n have x1: "fst (connectFallback ''secret'' neither_credentials RealSSHService_new)
       = Inl NoPasswordOrKey" by blast
  with xp have x2: "snd (connectFallback ''secret'' neither_credentials RealSSHService_new)
       = RealSSHService_new" by simp
  from x1 x2 have 1: "connectFallback ''secret'' neither_credentials RealSSHService_new
       = (Inl NoPasswordOrKey, RealSSHService_new)" by (simp add: prod_eq_iff)
  from yp b have 2: "fst (connectFallback ''secret'' both_credentials RealSSHService_new) = Inr True"
    by blast
  from z g have z1: "fst (connectFallback ''secret'' gt_credentials RealSSHService_new)
       = Inl InvalidPassword" by blast
  with z have z2: "snd (connectFallback ''secret'' gt_credentials RealSSHService_new)
       = RealSSHService_new" by simp
  from z1 z2 have 3: "connectFallback ''secret'' gt_credentials RealSSHService_new
       = (Inl InvalidPassword, RealSSHService_new)" by (simp add: prod_eq_iff)
  have 4: "fst (connect_ssh example_broker both_credentials WebSocketSSHService_new) = Inr True"
    using yp by (simp add: example_broker_def)
  have 5: "fst (connect_ssh example_broker neither_credentials WebSocketSSHService_new) = Inr True"
    using xp by (simp add: example_broker_def)
  have 6: "fst (connect_ssh silent_broker both_credentials WebSocketSSHService_new)
       = Inl SocketConnectionTimeout"
    using yk by (simp add: silent_broker_def)
  from yp b u have 7: "handleConnect ByPassword both_credentials = Some both_credentials"
    by blast
  from yk b u have 8: "handleConnect ByKey both_credentials = Some both_credentials"
    by blast
  from xp n have 9: "handleConnect ByPassword neither_credentials = None" by blast
  from xk n have 10: "handleConnect ByKey neither_credentials = None" by blast
  from n b g 1 2 3 4 5 6 7 8 9 10 show ?thesis by blast
qed

text \<open>
  The claim as it is written fails: credentials with both secrets are accepted by
  \<^verbatim>\<open>connectFallback\<close> and by the transport, and credentials with neither are accepted
  by the transport.
\<close>

theorem connect_accepts_both_and_neither:
  "truthy (password both_credentials) \<and> truthy (privateKey both_credentials)
   \<and> fst (connectFallback ''secret'' both_credentials RealSSHService_new) = Inr True
   \<and> fst (connect_ssh example_broker both_credentials WebSocketSSHService_new) = Inr True
   \<and> \<not> truthy (password neither_credentials) \<and> \<not> truthy (privateKey neither_credentials)
   \<and> fst (connect_ssh example_broker neither_credentials WebSocketSSHService_new) = Inr True"
  by (simp add: both_credentials_def neither_credentials_def example_credentials_def
        connectFallback_def connect_ssh_def waitForSocketConnection_def connectSSH_def
        example_broker_def WebSocketSSHService_new_def Let_def)

section \<open>\<^verbatim>\<open>changeDirectory\<close>\<close>

text \<open>
  Claim C8, as the code has it. Each backend writes its current path only when its
  validation succeeds, and a failed \<^verbatim>\<open>changeDirectory\<close> leaves the backend as it was.
  The local backend validates with a stat of the path, not a listing: it succeeds exactly
  when the stat reports an existing directory, and fails with "Directory does not
  exist", "Path is not a directory" or the rethrown stat failure. The remote backend
  validates by awaiting \<^verbatim>\<open>listDirectory(path)\<close>: it succeeds exactly when it is connected
  and that listing succeeds, and fails with "Not connected to remote server" or with the
  error of the listing (the broker's text or the timeout).
\<close>

theorem changeDirectory_validation:
  "(fst (changeDirectory_local P p s) = Inr ()
      \<longleftrightarrow> (\<exists>info. getInfoAsync P (disk s) p = Some info
                  \<and> info_exists info \<and> info_isDirectory info))
   \<and> (fst (changeDirectory_local P p s) = Inr ()
        \<longrightarrow> snd (changeDirectory_local P p s) = s\<lparr>currentPath_local := p\<rparr>)
   \<and> (fst (changeDirectory_local P p s) \<noteq> Inr ()
        \<longrightarrow> snd (changeDirectory_local P p s) = s
            \<and> fst (changeDirectory_local P p s)
                \<in> {Inl (DirectoryDoesNotExist p), Inl (PathIsNotADirectory p), Inl StorageFailure})
   \<and> (fst (changeDirectory_remote B q r) = Inr ()
      \<longleftrightarrow> isConnected_ssh r \<and> (\<exists>files. listDirectory_ssh B (Some q) r = Inr files))
   \<and> (fst (changeDirectory_remote B q r) = Inr ()
        \<longrightarrow> currentPath_ssh (snd (changeDirectory_remote B q r)) = q)
   \<and> (fst (changeDirectory_remote B q r) \<noteq> Inr ()
        \<longrightarrow> snd (changeDirectory_remote B q r) = r
            \<and> (fst (changeDirectory_remote B q r) = Inl NotConnectedToRemote
                \<or> (\<exists>e. listDirectory_ssh B (Some q) r = Inl e
                        \<and> fst (changeDirectory_remote B q r) = Inl e)))"
proof -
  have l: "(fst (changeDirectory_local P p s) = Inr ()
      \<longleftrightarrow> (\<exists>info. getInfoAsync P (disk s) p = Some info
                  \<and> info_exists info \<and> info_isDirectory info))
   \<and> (fst (changeDirectory_local P p s) = Inr ()
        \<longrightarrow> snd (changeDirectory_local P p s) = s\<lparr>currentPath_local := p\<rparr>)
   \<and> (fst (changeDirectory_local P p s) \<noteq> Inr ()
        \<longrightarrow> snd (changeDirectory_local P p s) = s
            \<and> fst (changeDirectory_local P p s)
                \<in> {Inl (DirectoryDoesNotExist p), Inl (PathIsNotADirectory p), Inl StorageFailure})"
    by (cases "getInfoAsync P (disk s) p") (simp_all add: changeDirectory_local_def)
  have r: "(fst (changeDirectory_remote B q r) = Inr ()
      \<longleftrightarrow> isConnected_ssh r \<and> (\<exists>files. listDirectory_ssh B (Some q) r = Inr files))
   \<and> (fst (changeDirectory_remote B q r) = Inr ()
        \<longrightarrow> currentPath_ssh (snd (changeDirectory_remote B q r)) = q)
   \<and> (fst (changeDirectory_remote B q r) \<noteq> Inr ()
        \<longrightarrow> snd (changeDirectory_remote B q r) = r
            \<and> (fst (changeDirectory_remote B q r) = Inl NotConnectedToRemote
                \<or> (\<exists>e. listDirectory_ssh B (Some q) r = Inl e
                        \<and> fst (changeDirectory_remote B q r) = Inl e)))"
    by (cases "isConnected_ssh r"; cases "listDirectory_ssh B (Some q) r")
       (simp_all add: changeDirectory_remote_def changeDirectory_ssh_def)
  from l r show ?thesis by blast
qed


theorem changeDirectory_validation_witness:
  "fst (changeDirectory_local example_platform ''/docs/src'' example_local) = Inr ()
   \<and> snd (changeDirectory_local example_platform ''/docs/src'' example_local)
       = example_local\<lparr>currentPath_local := ''/docs/src''\<rparr>
   \<and> fst (changeDirectory_local example_platform ''/docs/a.txt'' example_local) \<noteq> Inr ()
   \<and> snd (changeDirectory_local example_platform ''/docs/a.txt'' example_local) = example_local
   \<and> fst (changeDirectory_remote example_broker ''/work'' example_service) = Inr ()
   \<and> currentPath_ssh (snd (changeDirectory_remote example_broker ''/work'' example_service))
       = ''/work''
   \<and> fst (changeDirectory_remote silent_broker ''/nowhere'' example_service) \<noteq> Inr ()
   \<and> snd (changeDirectory_remote silent_broker ''/nowhere'' example_service) = example_service"
proof -
  have 1: "fst (changeDirectory_local example_platform ''/docs/src'' example_local) = Inr ()"
    by (simp add: changeDirectory_local_def example_platform_def)
  have 2: "fst (changeDirectory_local example_platform ''/docs/a.txt'' example_local) \<noteq> Inr ()"
    by (simp add: changeDirectory_local_def example_platform_def)
  have 3: "fst (changeDirectory_remote example_broker ''/work'' example_service) = Inr ()"
    by (simp add: changeDirectory_remote_def changeDirectory_ssh_def listDirectory_ssh_def
          isConnected_ssh_def example_service_eq example_broker_def or_else_def)
  have 4: "fst (changeDirectory_remote silent_broker ''/nowhere'' example_service) \<noteq> Inr ()"
    by (simp add: changeDirectory_remote_def changeDirectory_ssh_def listDirectory_ssh_def
          isConnected_ssh_def example_service_eq silent_broker_def or_else_def)
  note a = changeDirectory_validation [of example_platform "''/docs/src''" example_local
         example_broker "''/work''" example_service]
  note b = changeDirectory_validation [of example_platform "''/docs/a.txt''" example_local
         silent_broker "''/nowhere''" example_service]
  from a 1 have 5: "snd (changeDirectory_local example_platform ''/docs/src'' example_local)
       = example_local\<lparr>currentPath_local := ''/docs/src''\<rparr>" by blast
  from b 2 have 6: "snd (changeDirectory_local example_platform ''/docs/a.txt'' example_local)
       = example_local" by blast
  from a 3 have 7: "currentPath_ssh (snd (changeDirectory_remote example_broker ''/work''
       example_service)) = ''/work''" by blast
  from b 4 have 8: "snd (changeDirectory_remote silent_broker ''/nowhere'' example_service)
       = example_service" by blast
  from 1 2 3 4 5 6 7 8 show ?thesis by blast
qed

text \<open>
  The claim as it is written fails: the local backend changes into a directory whose
  listing fails, and a failed remote \<^verbatim>\<open>changeDirectory\<close> carries the listing's timeout,
  neither "not found" nor "not a directory".
\<close>

theorem changeDirectory_not_by_listing:
  "listDirectory_local example_platform (Some ''/locked'') example_local
     = Inl (FailedToList ''/locked'')
   \<and> changeDirectory_local example_platform ''/locked'' example_local
     = (Inr (), example_local\<lparr>currentPath_local := ''/locked''\<rparr>)
   \<and> changeDirectory_remote silent_broker ''/nowhere'' example_service
     = (Inl (Timeout ListDir), example_service)"
proof (intro conjI)
  show "listDirectory_local example_platform (Some ''/locked'') example_local
     = Inl (FailedToList ''/locked'')"
    by (simp add: listDirectory_local_def example_platform_def or_else_def)
  show "changeDirectory_local example_platform ''/locked'' example_local
     = (Inr (), example_local\<lparr>currentPath_local := ''/locked''\<rparr>)"
    by (simp add: changeDirectory_local_def example_platform_def)
  show "changeDirectory_remote silent_broker ''/nowhere'' example_service
     = (Inl (Timeout ListDir), example_service)"
    by (simp add: changeDirectory_remote_def changeDirectory_ssh_def listDirectory_ssh_def
        isConnected_ssh_def example_service_eq silent_broker_def or_else_def)
qed

section \<open>Requests, replies and deadlines\<close>

lemma length_settle [simp]: "length (settle i v ps) = length ps"
  by (simp add: settle_def)

lemma nth_settle:
  "j < length ps \<Longrightarrow>
     settle i v ps ! j = (if j = i \<and> ps ! j = Pending then v else ps ! j)"
  by (auto simp: settle_def nth_list_update)

lemma fold_fire_listener_fields [simp]:
  "clock (fold (fire_listener ev) ls c) = clock c"
  "listeners (fold (fire_listener ev) ls c) = listeners c"
  "length (promises (fold (fire_listener ev) ls c)) = length (promises c)"
  by (induction ls arbitrary: c) (simp_all add: fire_listener_def)

lemma fold_fire_listener_timers:
  "set (timers (fold (fire_listener ev) ls c))
     = {t \<in> set (timers c). fst t \<notin> (\<lambda>l. snd (snd l)) ` set ls}"
  by (induction ls arbitrary: c) (auto simp: fire_listener_def)

lemma fold_fire_listener_settled:
  "j < length (promises c) \<Longrightarrow> promises c ! j \<noteq> Pending
     \<Longrightarrow> promises (fold (fire_listener ev) ls c) ! j = promises c ! j"
  by (induction ls arbitrary: c) (simp_all add: fire_listener_def nth_settle)

lemma fold_fire_listener_other:
  "j < length (promises c) \<Longrightarrow> \<forall>l \<in> set ls. snd (snd l) \<noteq> j
     \<Longrightarrow> promises (fold (fire_listener ev) ls c) ! j = promises c ! j"
  by (induction ls arbitrary: c) (simp_all add: fire_listener_def nth_settle)

lemma fold_fire_timer_fields [simp]:
  "clock (fold fire_timer ts c) = clock c"
  "listeners (fold fire_timer ts c) = listeners c"
  "timers (fold fire_timer ts c) = timers c"
  "length (promises (fold fire_timer ts c)) = length (promises c)"
  by (induction ts arbitrary: c) (simp_all add: fire_timer_def)

lemma fold_fire_timer_settled:
  "j < length (promises c) \<Longrightarrow> promises c ! j \<noteq> Pending
     \<Longrightarrow> promises (fold fire_timer ts c) ! j = promises c ! j"
  by (induction ts arbitrary: c) (simp_all add: fire_timer_def nth_settle)

lemma fold_fire_timer_other:
  "j < length (promises c) \<Longrightarrow> \<forall>t \<in> set ts. fst t \<noteq> j
     \<Longrightarrow> promises (fold fire_timer ts c) ! j = promises c ! j"
  by (induction ts arbitrary: c) (simp_all add: fire_timer_def nth_settle)

lemma fold_fire_timer_due:
  assumes "j < length (promises c)" "promises c ! j = Pending"
    and "\<exists>t \<in> set ts. fst t = j" "\<forall>t \<in> set ts. fst t = j \<longrightarrow> fst (snd t) = op"
  shows "promises (fold fire_timer ts c) ! j = Rejected (Timeout op)"
  using assms
proof (induction ts arbitrary: c)
  case Nil
  then show ?case by simp
next
  case (Cons t ts)
  have len: "j < length (promises (fire_timer t c))"
    using Cons.prems(1) by (simp add: fire_timer_def)
  show ?case
  proof (cases "fst t = j")
    case True
    with Cons.prems(4) have t: "fst (snd t) = op" by simp
    have "promises (fire_timer t c) ! j = Rejected (Timeout op)"
      using Cons.prems(1,2) True t by (simp add: fire_timer_def nth_settle)
    then have "promises (fold fire_timer ts (fire_timer t c)) ! j = Rejected (Timeout op)"
      using fold_fire_timer_settled [OF len, of ts] by simp
    then show ?thesis by simp
  next
    case False
    have p: "promises (fire_timer t c) ! j = Pending"
      using Cons.prems(1,2) False by (simp add: fire_timer_def nth_settle)
    have m: "\<exists>t \<in> set ts. fst t = j"
      using Cons.prems(3) False by auto
    have u: "\<forall>t \<in> set ts. fst t = j \<longrightarrow> fst (snd t) = op"
      using Cons.prems(4) by simp
    have "promises (fold fire_timer ts (fire_timer t c)) ! j = Rejected (Timeout op)"
      by (rule Cons.IH [OF len p m u])
    then show ?thesis by simp
  qed
qed

lemma length_promises_occur: "length (promises c) \<le> length (promises (occur e c))"
  by (cases e) (simp_all add: request_def deliver_def elapse_def Let_def)

lemma occur_settled:
  assumes "j < length (promises c)" "promises c ! j \<noteq> Pending"
  shows "promises (occur e c) ! j = promises c ! j"
proof (cases e)
  case (Request op)
  then show ?thesis using assms by (simp add: request_def Let_def nth_append)
next
  case (Elapse d)
  then show ?thesis using assms by (simp add: elapse_def Let_def fold_fire_timer_settled)
qed (use assms in \<open>simp_all add: deliver_def fold_fire_listener_settled\<close>)

lemma occur_all_settled:
  "j < length (promises c) \<Longrightarrow> promises c ! j \<noteq> Pending
     \<Longrightarrow> j < length (promises (occur_all es c))
         \<and> promises (occur_all es c) ! j = promises c ! j"
proof (induction es arbitrary: c)
  case Nil
  then show ?case by simp
next
  case (Cons e es)
  have 1: "j < length (promises (occur e c))"
    using Cons.prems(1) length_promises_occur [of c e] by simp
  have 2: "promises (occur e c) ! j = promises c ! j"
    using Cons.prems by (rule occur_settled)
  with Cons.prems(2) have 3: "promises (occur e c) ! j \<noteq> Pending" by simp
  from Cons.IH [OF 1 3] 2 show ?case by simp
qed


lemma request_armed:
  assumes "armed i op dl c"
  shows "armed i op dl (snd (request op' c))"
  using assms unfolding armed_def request_def Let_def
  by (auto simp: nth_append)

lemma listens_to_other:
  assumes "\<not> replies_to op ev" "listens_to (event_name ev) l"
  shows "fst l \<noteq> op"
proof
  assume "fst l = op"
  with assms(2) have "event_name ev = Some (op, fst (snd l))" by (simp add: listens_to_def)
  with assms(1) show False unfolding replies_to_def by (cases "fst (snd l)") simp_all
qed

lemma deliver_armed:
  assumes a: "armed i op dl c" and n: "\<not> replies_to op ev"
  shows "armed i op dl (deliver ev c)"
proof -
  let ?fired = "filter (listens_to (event_name ev)) (listeners c)"
  let ?c0 = "c\<lparr>listeners := filter (\<lambda>l. \<not> listens_to (event_name ev) l) (listeners c)\<rparr>"
  have d: "deliver ev c = fold (fire_listener ev) ?fired ?c0" by (simp add: deliver_def)
  have other: "\<forall>l \<in> set ?fired. snd (snd l) \<noteq> i"
  proof
    fix l assume l: "l \<in> set ?fired"
    then have "fst l \<noteq> op" using listens_to_other [OF n] by simp
    moreover from l have "l \<in> set (listeners c)" by simp
    ultimately show "snd (snd l) \<noteq> i" using a unfolding armed_def by blast
  qed
  have len: "i < length (promises ?c0)" using a by (simp add: armed_def)
  have 1: "promises (deliver ev c) ! i = Pending"
    using fold_fire_listener_other [OF len other, of ev] a by (simp add: d armed_def)
  have 2: "i < length (promises (deliver ev c))" using len by (simp add: d)
  have ts: "set (timers (deliver ev c))
              = {t \<in> set (timers c). fst t \<notin> (\<lambda>l. snd (snd l)) ` set ?fired}"
    by (simp add: d fold_fire_listener_timers)
  have "i \<notin> (\<lambda>l. snd (snd l)) ` set ?fired" using other by blast
  then have 3: "(i, op, dl) \<in> set (timers (deliver ev c))"
    using a unfolding ts armed_def by simp
  have 4: "clock (deliver ev c) < dl" using a by (simp add: d armed_def)
  have 5: "\<forall>l \<in> set (listeners (deliver ev c)). snd (snd l) = i \<longrightarrow> fst l = op"
    using a by (simp add: d armed_def)
  have 6: "\<forall>t \<in> set (timers (deliver ev c)).
             fst t = i \<longrightarrow> fst (snd t) = op \<and> snd (snd t) = dl"
    using a unfolding ts armed_def by blast
  from 1 2 3 4 5 6 show ?thesis unfolding armed_def by blast
qed

lemma elapse_armed:
  assumes a: "armed i op dl c"
  shows "if clock c + d < dl then armed i op dl (elapse d c) else timed_out i op (elapse d c)"
proof -
  let ?now = "clock c + d"
  let ?due = "filter (\<lambda>t. snd (snd t) \<le> ?now) (timers c)"
  let ?c0 = "c\<lparr>clock := ?now, timers := filter (\<lambda>t. \<not> snd (snd t) \<le> ?now) (timers c)\<rparr>"
  have e: "elapse d c = fold fire_timer ?due ?c0" by (simp add: elapse_def Let_def)
  have len: "i < length (promises ?c0)" using a by (simp add: armed_def)
  have pend: "promises ?c0 ! i = Pending" using a by (simp add: armed_def)
  show ?thesis
  proof (cases "?now < dl")
    case True
    have other: "\<forall>t \<in> set ?due. fst t \<noteq> i"
    proof
      fix t assume t: "t \<in> set ?due"
      show "fst t \<noteq> i"
      proof
        assume "fst t = i"
        with t a have "snd (snd t) = dl" unfolding armed_def by simp
        with t True show False by simp
      qed
    qed
    have 1: "promises (elapse d c) ! i = Pending"
      using fold_fire_timer_other [OF len other] pend by (simp add: e)
    have 2: "i < length (promises (elapse d c))" using len by (simp add: e)
    have 3: "(i, op, dl) \<in> set (timers (elapse d c))"
      using a True by (simp add: e armed_def)
    have 4: "clock (elapse d c) < dl" using True by (simp add: e)
    have 5: "\<forall>l \<in> set (listeners (elapse d c)). snd (snd l) = i \<longrightarrow> fst l = op"
      using a by (simp add: e armed_def)
    have 6: "\<forall>t \<in> set (timers (elapse d c)).
               fst t = i \<longrightarrow> fst (snd t) = op \<and> snd (snd t) = dl"
      using a by (simp add: e armed_def)
    from 1 2 3 4 5 6 have "armed i op dl (elapse d c)" unfolding armed_def by blast
    with True show ?thesis by simp
  next
    case False
    have "(i, op, dl) \<in> set ?due" using a False by (simp add: armed_def)
    then have ex: "\<exists>t \<in> set ?due. fst t = i" by force
    have un: "\<forall>t \<in> set ?due. fst t = i \<longrightarrow> fst (snd t) = op"
      using a by (simp add: armed_def)
    have "promises (elapse d c) ! i = Rejected (Timeout op)"
      using fold_fire_timer_due [OF len pend ex un] by (simp add: e)
    moreover have "i < length (promises (elapse d c))" using len by (simp add: e)
    ultimately have "timed_out i op (elapse d c)" by (simp add: timed_out_def)
    with False show ?thesis by simp
  qed
qed


lemma clock_occur: "clock (occur e c) = clock c + elapsed [e]"
  by (cases e) (simp_all add: request_def deliver_def elapse_def Let_def)

lemma elapsed_Cons: "elapsed (e # es) = elapsed [e] + elapsed es"
  by (cases e) simp_all

lemma occur_armed:
  assumes "armed i op dl c" "\<not> replies_to op e"
  shows "if clock c + elapsed [e] < dl then armed i op dl (occur e c)
         else timed_out i op (occur e c)"
proof (cases e)
  case (Request op')
  then show ?thesis using request_armed [OF assms(1), of op'] assms(1)
    by (simp add: armed_def)
next
  case (Elapse d)
  then show ?thesis using elapse_armed [OF assms(1), of d] by simp
qed (use deliver_armed [OF assms] assms(1) in \<open>simp_all add: armed_def\<close>)

lemma occur_all_timed_out:
  "timed_out i op c \<Longrightarrow> timed_out i op (occur_all es c)"
  unfolding timed_out_def using occur_all_settled [of i c es] by simp

lemma occur_all_armed:
  "armed i op dl c \<Longrightarrow> list_all (\<lambda>e. \<not> replies_to op e) es
     \<Longrightarrow> (if clock c + elapsed es < dl then armed i op dl (occur_all es c)
          else timed_out i op (occur_all es c))"
proof (induction es arbitrary: c)
  case Nil
  then show ?case by (simp add: armed_def)
next
  case (Cons e es)
  from Cons.prems(2) have ne: "\<not> replies_to op e"
    and nes: "list_all (\<lambda>e. \<not> replies_to op e) es" by simp_all
  note st = occur_armed [OF Cons.prems(1) ne]
  show ?case
  proof (cases "clock c + elapsed [e] < dl")
    case True
    with st have a: "armed i op dl (occur e c)" by simp
    have "clock (occur e c) + elapsed es = clock c + elapsed (e # es)"
      using clock_occur [of e c] elapsed_Cons [of e es] by simp
    with Cons.IH [OF a nes] show ?thesis by simp
  next
    case False
    with st have "timed_out i op (occur e c)" by simp
    then have "timed_out i op (occur_all es (occur e c))" by (rule occur_all_timed_out)
    moreover have "\<not> clock c + elapsed (e # es) < dl"
      using False elapsed_Cons [of e es] by simp
    ultimately show ?thesis by simp
  qed
qed

lemma occur_all_append: "occur_all (es @ fs) c = occur_all fs (occur_all es c)"
  by (induction es arbitrary: c) simp_all

lemma timeout_ms_pos: "0 < timeout_ms op"
  by (cases op) simp_all

lemma request_gives_armed:
  assumes "wf_channel c" "request op c = (i, c1)"
  shows "armed i op (clock c + timeout_ms op) c1"
proof -
  have i: "i = length (promises c)" and c1: "c1 = snd (request op c)"
    using assms(2) by (auto simp: request_def Let_def)
  have l: "\<forall>l \<in> set (listeners c). snd (snd l) \<noteq> i"
    using assms(1) unfolding wf_channel_def list_all_iff i by fastforce
  have t: "\<forall>t \<in> set (timers c). fst t \<noteq> i"
    using assms(1) unfolding wf_channel_def list_all_iff i by fastforce
  show ?thesis
    unfolding armed_def c1 request_def Let_def
    using l t timeout_ms_pos [of op] by (auto simp: i nth_append)
qed

text \<open>Every channel reached from the initial one is well formed.\<close>

lemma wf_channel_new: "wf_channel channel_new"
  by (simp add: wf_channel_def channel_new_def)

lemma wf_channel_request: "wf_channel c \<Longrightarrow> wf_channel (snd (request op c))"
  unfolding wf_channel_def list_all_iff request_def Let_def by (auto simp: less_Suc_eq)

lemma wf_channel_deliver: "wf_channel c \<Longrightarrow> wf_channel (deliver ev c)"
  unfolding wf_channel_def list_all_iff deliver_def
  by (simp add: fold_fire_listener_timers)

lemma wf_channel_elapse: "wf_channel c \<Longrightarrow> wf_channel (elapse d c)"
  unfolding wf_channel_def list_all_iff elapse_def Let_def by simp

lemma wf_channel_occur: "wf_channel c \<Longrightarrow> wf_channel (occur e c)"
  by (cases e) (simp_all add: wf_channel_request wf_channel_deliver wf_channel_elapse)

lemma wf_channel_occur_all: "wf_channel c \<Longrightarrow> wf_channel (occur_all es c)"
  by (induction es arbitrary: c) (simp_all add: wf_channel_occur)

text \<open>
  Claim C1, as the code has it. A call is issued on a channel whose listeners and timers
  all belong to issued calls. If no reply to its operation, success or error, occurs
  until its deadline has elapsed, the promise of the call is rejected with the timeout
  error of the operation, and no later event, a late reply included, changes that
  outcome. The listeners are not retired together: the passing of time removes no
  listener, and a reply removes exactly the listeners registered for its own event
  name, so the sibling of a fired listener and both listeners of a timed-out call stay
  registered.
\<close>

theorem timeout_without_reply:
  assumes "wf_channel c" "request op c = (i, c1)"
    and "list_all (\<lambda>e. \<not> replies_to op e) es" "timeout_ms op \<le> elapsed es"
  shows "i < length (promises (occur_all (es @ later) c1))
         \<and> promises (occur_all (es @ later) c1) ! i = Rejected (Timeout op)
         \<and> listeners (elapse d c') = listeners c'
         \<and> listeners (deliver ev c')
             = filter (\<lambda>l. \<not> listens_to (event_name ev) l) (listeners c')"
proof -
  have a: "armed i op (clock c + timeout_ms op) c1"
    using assms(1,2) by (rule request_gives_armed)
  have "clock c1 = clock c" using assms(2) by (auto simp: request_def Let_def)
  then have "\<not> clock c1 + elapsed es < clock c + timeout_ms op" using assms(4) by simp
  with occur_all_armed [OF a assms(3)] have "timed_out i op (occur_all es c1)" by simp
  then have "timed_out i op (occur_all (es @ later) c1)"
    unfolding occur_all_append by (rule occur_all_timed_out)
  moreover have "listeners (elapse d c') = listeners c'" by (simp add: elapse_def Let_def)
  moreover have "listeners (deliver ev c')
             = filter (\<lambda>l. \<not> listens_to (event_name ev) l) (listeners c')"
    by (simp add: deliver_def)
  ultimately show ?thesis unfolding timed_out_def by simp
qed

text \<open>Runs of the channel from its initial state.\<close>

lemma ex1: "request ListDir channel_new
  = (0, \<lparr>clock = 0, listeners = [(ListDir, OnSuccess, 0), (ListDir, OnError, 0)],
         timers = [(0, ListDir, 15000)], promises = [Pending]\<rparr>)"
  by (simp add: request_def channel_new_def)

lemma ex_after_timeout:
  "occur_all [Elapse 15000] (snd (request ListDir channel_new))
     = \<lparr>clock = 15000, listeners = [(ListDir, OnSuccess, 0), (ListDir, OnError, 0)],
        timers = [], promises = [Rejected (Timeout ListDir)]\<rparr>"
  by (simp add: ex1 elapse_def fire_timer_def settle_def Let_def)

lemma ex_after_success:
  "occur_all [ListDirSuccess []] (snd (request ListDir channel_new))
     = \<lparr>clock = 0, listeners = [(ListDir, OnError, 0)],
        timers = [], promises = [Resolved (VFiles [])]\<rparr>"
  by (simp add: ex1 deliver_def fire_listener_def listens_to_def settle_def)

lemma ex_second_request:
  "occur_all [Elapse 15000, Request ListDir] (snd (request ListDir channel_new))
     = \<lparr>clock = 15000,
        listeners = [(ListDir, OnSuccess, 0), (ListDir, OnError, 0),
                     (ListDir, OnSuccess, 1), (ListDir, OnError, 1)],
        timers = [(1, ListDir, 30000)],
        promises = [Rejected (Timeout ListDir), Pending]\<rparr>"
proof -
  have "occur_all [Elapse 15000, Request ListDir] (snd (request ListDir channel_new))
          = snd (request ListDir
                   (occur_all [Elapse 15000] (snd (request ListDir channel_new))))"
    by simp
  also have "\<dots> = snd (request ListDir
      \<lparr>clock = 15000, listeners = [(ListDir, OnSuccess, 0), (ListDir, OnError, 0)],
        timers = [], promises = [Rejected (Timeout ListDir)]\<rparr>)"
    by (simp only: ex_after_timeout)
  also have "\<dots> = \<lparr>clock = 15000,
        listeners = [(ListDir, OnSuccess, 0), (ListDir, OnError, 0),
                     (ListDir, OnSuccess, 1), (ListDir, OnError, 1)],
        timers = [(1, ListDir, 30000)],
        promises = [Rejected (Timeout ListDir), Pending]\<rparr>"
    by (simp add: request_def)
  finally show ?thesis .
qed

text \<open>
  The claim as it is written fails: after the deadline of a call both its listeners are
  still registered, after its success reply its error listener is, and the success
  listener of a timed-out call is among those that a later reply of the same name fires.
\<close>

theorem listeners_not_retired:
  "promises (occur_all [Elapse 15000] (snd (request ListDir channel_new))) ! 0
     = Rejected (Timeout ListDir)
   \<and> \<not> retired 0 (occur_all [Elapse 15000] (snd (request ListDir channel_new)))
   \<and> promises (occur_all [ListDirSuccess []] (snd (request ListDir channel_new))) ! 0
     = Resolved (VFiles [])
   \<and> \<not> retired 0 (occur_all [ListDirSuccess []] (snd (request ListDir channel_new)))
   \<and> (ListDir, OnSuccess, 0)
       \<in> set (filter (listens_to (event_name (ListDirSuccess [])))
                (listeners (occur_all [Elapse 15000, Request ListDir]
                              (snd (request ListDir channel_new)))))"
  unfolding ex_after_timeout ex_after_success ex_second_request
  by (simp add: retired_def listens_to_def)


theorem timeout_without_reply_witness:
  "wf_channel channel_new
   \<and> request ListDir channel_new
       = (0, \<lparr>clock = 0, listeners = [(ListDir, OnSuccess, 0), (ListDir, OnError, 0)],
              timers = [(0, ListDir, 15000)], promises = [Pending]\<rparr>)
   \<and> list_all (\<lambda>e. \<not> replies_to ListDir e)
        [Request ReadFile, ReadFileSuccess ''/f'' ''x'', Elapse 15000]
   \<and> timeout_ms ListDir \<le> elapsed [Request ReadFile, ReadFileSuccess ''/f'' ''x'', Elapse 15000]
   \<and> promises (occur_all
         ([Request ReadFile, ReadFileSuccess ''/f'' ''x'', Elapse 15000]
          @ [ListDirSuccess [], Request ListDir, ListDirSuccess []])
         \<lparr>clock = 0, listeners = [(ListDir, OnSuccess, 0), (ListDir, OnError, 0)],
              timers = [(0, ListDir, 15000)], promises = [Pending]\<rparr>) ! 0
       = Rejected (Timeout ListDir)"
proof -
  have w: "wf_channel channel_new" by (simp add: wf_channel_def channel_new_def)
  have n: "list_all (\<lambda>e. \<not> replies_to ListDir e)
        [Request ReadFile, ReadFileSuccess ''/f'' ''x'', Elapse 15000]"
    by (simp add: replies_to_def)
  have t: "timeout_ms ListDir \<le> elapsed [Request ReadFile, ReadFileSuccess ''/f'' ''x'', Elapse 15000]"
    by simp
  note T = timeout_without_reply [OF w ex1 n t,
      where later = "[ListDirSuccess [], Request ListDir, ListDirSuccess []]"
        and d = 0 and c' = channel_new and ev = "ListDirSuccess []"]
  have r: "promises (occur_all
         ([Request ReadFile, ReadFileSuccess ''/f'' ''x'', Elapse 15000]
          @ [ListDirSuccess [], Request ListDir, ListDirSuccess []])
         \<lparr>clock = 0, listeners = [(ListDir, OnSuccess, 0), (ListDir, OnError, 0)],
              timers = [(0, ListDir, 15000)], promises = [Pending]\<rparr>) ! 0
       = Rejected (Timeout ListDir)"
    by (rule conjunct1 [OF conjunct2 [OF T]])
  show ?thesis by (intro conjI w ex1 n t r)
qed

section \<open>The awaited calls and the channel\<close>

text \<open>
  The transport's methods, written above as functions of the broker's answer, settle as
  the channel settles the promise of the call: a success reply resolves it with the
  payload, an error reply rejects it with the text, and silence until the deadline rejects
  it with the timeout.
\<close>

lemma request_new:
  "snd (request op channel_new)
     = \<lparr>clock = 0, listeners = [(op, OnSuccess, 0), (op, OnError, 0)],
        timers = [(0, op, timeout_ms op)], promises = [Pending]\<rparr>"
  by (simp add: request_def channel_new_def)

lemma awaited_reply:
  "event_name ev = Some (op, pol) \<Longrightarrow> awaited op [ev] = settle_with ev"
  unfolding awaited_def request_new
  by (cases ev; cases pol)
     (simp_all add: deliver_def listens_to_def fire_listener_def settle_def)

lemma awaited_timeout: "awaited op [Elapse (timeout_ms op)] = Rejected (Timeout op)"
  unfolding awaited_def request_new
  by (simp add: elapse_def fire_timer_def settle_def Let_def)

lemma listDirectory_ssh_awaited:
  "connected s \<Longrightarrow> socket s \<noteq> None \<Longrightarrow>
     awaited ListDir (listDir_events (on_listDir B (or_else p (currentPath_ssh s))))
       = (case listDirectory_ssh B p s of
            Inl e \<Rightarrow> Rejected e | Inr files \<Rightarrow> Resolved (VFiles files))"
  using awaited_timeout [of ListDir]
  by (cases "on_listDir B (or_else p (currentPath_ssh s))")
     (auto simp: listDirectory_ssh_def listDir_events_def awaited_reply)

lemma readFile_ssh_awaited:
  "connected s \<Longrightarrow> socket s \<noteq> None \<Longrightarrow>
     awaited ReadFile (readFile_events filePath (on_readFile B filePath))
       = (case readFile_ssh B filePath s of
            Inl e \<Rightarrow> Rejected e | Inr content \<Rightarrow> Resolved (VString content))"
  using awaited_timeout [of ReadFile]
  by (cases "on_readFile B filePath")
     (auto simp: readFile_ssh_def readFile_events_def awaited_reply)

lemma writeFile_ssh_awaited:
  "connected s \<Longrightarrow> socket s \<noteq> None \<Longrightarrow>
     awaited WriteFile (writeFile_events (on_writeFile B filePath content))
       = (case writeFile_ssh B filePath content s of
            Inl e \<Rightarrow> Rejected e | Inr _ \<Rightarrow> Resolved VUnit)"
  using awaited_timeout [of WriteFile]
  by (cases "on_writeFile B filePath content")
     (auto simp: writeFile_ssh_def writeFile_events_def awaited_reply)

lemma executeCommand_ssh_awaited:
  "connected s \<Longrightarrow> socket s \<noteq> None \<Longrightarrow>
     awaited ExecuteCommand (executeCommand_events (on_executeCommand B command))
       = (case executeCommand_ssh B command s of
            Inl e \<Rightarrow> Rejected e | Inr out \<Rightarrow> Resolved (VString out))"
  using awaited_timeout [of ExecuteCommand]
  by (cases "on_executeCommand B command")
     (auto simp: executeCommand_ssh_def executeCommand_events_def awaited_reply)

end
